theory Spec2Isabelle
  imports Main "HOL-Library.Word" "HOL-Library.Char_ord" "HOL-Library.List_Lexorder"
    "HOL-Library.Multiset"
begin

section \<open>Values exchanged with the remote service\<close>

text \<open>
  The client in \<^verbatim>\<open>main.py\<close> talks to two HTTP endpoints, keeps the remote listing in a
  tree widget and the chosen local file in a global variable.  The model below follows the
  Python text function by function.  Python strings are lists of characters whose code
  points lie below 256; bytes are 8-bit words; a parsed JSON document is a value of type
  \<open>json\<close> (floating point numbers are left out), where \<open>JObj\<close> holds the items of the
  Python dict and a key is looked up with \<open>map_of\<close>.
\<close>

type_synonym byte = "8 word"

datatype json =
    JNull
  | JBool bool
  | JNum int
  | JStr string
  | JArr "json list"
  | JObj "(string \<times> json) list"

text \<open>
  Exceptions are values.  \<open>RequestException\<close> stands for every
  \<^verbatim>\<open>requests.exceptions.RequestException\<close> except the JSON one;
  \<open>RequestsJSONDecodeError\<close> is \<^verbatim>\<open>requests.exceptions.JSONDecodeError\<close>, which newer
  releases of the library raise from \<^verbatim>\<open>response.json()\<close> and which is a subclass of both
  \<^verbatim>\<open>RequestException\<close> and \<^verbatim>\<open>json.JSONDecodeError\<close>; \<open>JSONDecodeError\<close> is the plain
  \<^verbatim>\<open>json.JSONDecodeError\<close>.  The string names the cause (for \<open>KeyError\<close> the key, for
  \<open>AttributeError\<close> the attribute, for \<open>TypeError\<close> the operation).
\<close>

datatype exn =
    RequestException string
  | RequestsJSONDecodeError string
  | JSONDecodeError string
  | KeyError string
  | TypeError string
  | AttributeError string
  | OSError string

fun is_RequestException :: "exn \<Rightarrow> bool" where
  "is_RequestException (RequestException _) = True"
| "is_RequestException (RequestsJSONDecodeError _) = True"
| "is_RequestException _ = False"

fun is_JSONDecodeError :: "exn \<Rightarrow> bool" where
  "is_JSONDecodeError (RequestsJSONDecodeError _) = True"
| "is_JSONDecodeError (JSONDecodeError _) = True"
| "is_JSONDecodeError _ = False"

text \<open>
  \<^verbatim>\<open>pathlib.Path\<close> in its POSIX flavour: the path is kept as the string it was built from,
  and \<^verbatim>\<open>.name\<close> is its last component, where empty components and \<^verbatim>\<open>.\<close> do not count.
\<close>

datatype path = Path string

fun split_on :: "char \<Rightarrow> string \<Rightarrow> string list" where
  "split_on sep [] = [[]]"
| "split_on sep (c # cs) =
     (if c = sep then [] # split_on sep cs
      else (case split_on sep cs of [] \<Rightarrow> [[c]] | p # ps \<Rightarrow> (c # p) # ps))"

definition path_parts :: "string \<Rightarrow> string list" where
  "path_parts s = filter (\<lambda>p. p \<noteq> [] \<and> p \<noteq> ''.'') (split_on (CHR ''/'') s)"

fun path_name :: "path \<Rightarrow> string" where
  "path_name (Path s) = (case path_parts s of [] \<Rightarrow> [] | p # ps \<Rightarrow> last (p # ps))"

text \<open>
  A message is what an f-string builds: literal text and the \<^verbatim>\<open>str()\<close> of the values put
  into it, which is kept symbolic.  The time stamp that \<^verbatim>\<open>add_log\<close> puts in front of each
  line comes from the clock and is left out.
\<close>

datatype piece = Lit string | Str json | StrExn exn | StrPath path

type_synonym message = "piece list"

record request =
  url :: string
  headers :: "(string \<times> string) list"
  body :: json
  timeout :: nat

text \<open>
  A response: \<open>rtext\<close> is \<^verbatim>\<open>response.text\<close>, \<open>content\<close> is \<^verbatim>\<open>response.content\<close> and
  \<open>rjson\<close> is what \<^verbatim>\<open>response.json()\<close> does, return the parsed body or raise.
\<close>

record response =
  status_code :: int
  rtext :: string
  content :: "byte list"
  rjson :: "exn + json"

text \<open>A row of the tree widget: the tuple \<^verbatim>\<open>(file_name, file_size, last_modified)\<close>.\<close>

type_synonym row = "json \<times> json \<times> json"

text \<open>What the program does to the outside, in the order it does it.\<close>

datatype effect =
    ShowError string message
  | ShowInfo string message
  | Print message
  | Post request
  | AskOpenFilename
  | AskSaveAsFilename json
  | Write path "byte list"

text \<open>
  The outside world, as far as the program reads it: the environment variables, the
  server (the answer to a request may depend on the requests sent before; a network fault
  is the text of the \<^verbatim>\<open>RequestException\<close> that \<^verbatim>\<open>requests.post\<close> raises), the two file
  dialogs (the empty string means cancelled) and the local file system.
\<close>

record world =
  environ :: "string \<rightharpoonup> string"
  post :: "request list \<Rightarrow> request \<Rightarrow> string + response"
  askopenfilename :: string
  asksaveasfilename :: "json \<Rightarrow> string"
  read_file :: "path \<Rightarrow> exn + byte list"
  write_file :: "path \<Rightarrow> byte list \<Rightarrow> exn option"

text \<open>
  The globals of the module and the widgets they refer to.  \<open>log_text_area\<close> is \<open>None\<close>
  until the text widget exists, then the lines inserted so far; \<open>file_tree\<close> is the rows
  of the tree widget, the cache of the remote listing.
\<close>

record state =
  selected_file :: "path option"
  SUPA_UNPACK_API_URL :: "string option"
  SUPA_MAIN_API_URL :: "string option"
  log_text_area :: "message list option"
  file_label :: message
  file_tree :: "row list"
  trace :: "effect list"

fun posts :: "effect list \<Rightarrow> request list" where
  "posts [] = []"
| "posts (Post r # es) = r # posts es"
| "posts (_ # es) = posts es"

section \<open>The upload encoding\<close>

text \<open>
  \<^verbatim>\<open>base64.b64encode\<close> of the standard library (RFC 4648, with padding), followed by
  \<^verbatim>\<open>.decode('utf-8')\<close>, which maps the ASCII bytes to the same characters.
\<close>

text \<open>
  Three bytes are 24 bits, which are cut into four groups of six bits; each group is the
  index of a character of the alphabet.  One or two bytes left at the end are filled up
  with zero bits and the group is padded with \<open>=\<close> to four characters.
\<close>

definition b64_alphabet :: string where
  "b64_alphabet = ''ABCDEFGHIJKLMNOPQRSTUVWXYZabcdefghijklmnopqrstuvwxyz0123456789+/''"

definition b64_char :: "nat \<Rightarrow> char" where
  "b64_char i = b64_alphabet ! i"

fun b64encode :: "byte list \<Rightarrow> string" where
  "b64encode [] = []"
| "b64encode [a] =
     (let x = unat a
      in [b64_char (x div 4), b64_char ((x mod 4) * 16), CHR ''='', CHR ''=''])"
| "b64encode [a, b] =
     (let x = unat a; y = unat b
      in [b64_char (x div 4), b64_char ((x mod 4) * 16 + y div 16),
          b64_char ((y mod 16) * 4), CHR ''=''])"
| "b64encode (a # b # c # rest) =
     (let x = unat a; y = unat b; z = unat c
      in [b64_char (x div 4), b64_char ((x mod 4) * 16 + y div 16),
          b64_char ((y mod 16) * 4 + z div 64), b64_char (z mod 64)] @ b64encode rest)"

text \<open>
  The decoder of RFC 4648.  The client has none, since it never decodes what it uploads;
  the decoder is here to state that the encoding can be undone.  It reads four characters
  at a time, accepts padding in the last group only, and fails on any other text.
\<close>

fun index_of :: "'a \<Rightarrow> 'a list \<Rightarrow> nat option" where
  "index_of x [] = None"
| "index_of x (y # ys) = (if x = y then Some 0 else map_option Suc (index_of x ys))"

definition b64_value :: "char \<Rightarrow> nat option" where
  "b64_value c = index_of c b64_alphabet"

definition b64_group4 :: "char \<Rightarrow> char \<Rightarrow> char \<Rightarrow> char \<Rightarrow> byte list option" where
  "b64_group4 c1 c2 c3 c4 =
     (case (b64_value c1, b64_value c2, b64_value c3, b64_value c4) of
        (Some i, Some j, Some k, Some l) \<Rightarrow>
          Some [of_nat (i * 4 + j div 16), of_nat ((j mod 16) * 16 + k div 4),
                of_nat ((k mod 4) * 64 + l)]
      | _ \<Rightarrow> None)"

definition b64_group3 :: "char \<Rightarrow> char \<Rightarrow> char \<Rightarrow> byte list option" where
  "b64_group3 c1 c2 c3 =
     (case (b64_value c1, b64_value c2, b64_value c3) of
        (Some i, Some j, Some k) \<Rightarrow>
          Some [of_nat (i * 4 + j div 16), of_nat ((j mod 16) * 16 + k div 4)]
      | _ \<Rightarrow> None)"

definition b64_group2 :: "char \<Rightarrow> char \<Rightarrow> byte list option" where
  "b64_group2 c1 c2 =
     (case (b64_value c1, b64_value c2) of
        (Some i, Some j) \<Rightarrow> Some [of_nat (i * 4 + j div 16)]
      | _ \<Rightarrow> None)"

fun b64decode :: "string \<Rightarrow> byte list option" where
  "b64decode [] = Some []"
| "b64decode [c1, c2, c3, c4] =
     (if c3 = CHR ''='' \<and> c4 = CHR ''='' then b64_group2 c1 c2
      else if c4 = CHR ''='' then b64_group3 c1 c2 c3
      else b64_group4 c1 c2 c3 c4)"
| "b64decode (c1 # c2 # c3 # c4 # rest) =
     (case b64_group4 c1 c2 c3 c4 of
        None \<Rightarrow> None
      | Some xs \<Rightarrow> (case b64decode rest of None \<Rightarrow> None | Some ys \<Rightarrow> Some (xs @ ys)))"
| "b64decode _ = None"

section \<open>Python operations on parsed JSON\<close>

text \<open>Truth values: \<^verbatim>\<open>not v\<close> for an optional string and for a JSON value.\<close>

definition str_falsy :: "string option \<Rightarrow> bool" where
  "str_falsy v = (v = None \<or> v = Some [])"

fun json_falsy :: "json \<Rightarrow> bool" where
  "json_falsy JNull = True"
| "json_falsy (JBool b) = (\<not> b)"
| "json_falsy (JNum n) = (n = 0)"
| "json_falsy (JStr s) = (s = [])"
| "json_falsy (JArr xs) = (xs = [])"
| "json_falsy (JObj kvs) = (kvs = [])"

text \<open>\<^verbatim>\<open>d[k]\<close>: only a dict can be indexed by a string, and the key has to be there.\<close>

fun py_getitem :: "json \<Rightarrow> string \<Rightarrow> exn + json" where
  "py_getitem (JObj kvs) k = (case map_of kvs k of None \<Rightarrow> Inl (KeyError k) | Some x \<Rightarrow> Inr x)"
| "py_getitem _ k = Inl (TypeError ''subscript'')"

text \<open>\<^verbatim>\<open>d.get(k, default)\<close>: only a dict has the method.\<close>

fun py_get :: "json \<Rightarrow> string \<Rightarrow> json \<Rightarrow> exn + json" where
  "py_get (JObj kvs) k d = Inr (case map_of kvs k of None \<Rightarrow> d | Some x \<Rightarrow> x)"
| "py_get _ k d = Inl (AttributeError ''get'')"

text \<open>
  \<^verbatim>\<open>s.lower()\<close>: only a string has the method.  Below code point 256 the letters with a
  lower-case form are A to Z and the accented capitals \<open>0xC0\<close> to \<open>0xDE\<close> without the
  multiplication sign \<open>0xD7\<close>; each lies 32 below its lower-case form.
\<close>

definition lower_char :: "char \<Rightarrow> char" where
  "lower_char c =
     (let n = (of_char c :: nat)
      in if (65 \<le> n \<and> n \<le> 90) \<or> (192 \<le> n \<and> n \<le> 222 \<and> n \<noteq> 215)
         then char_of (n + 32) else c)"

definition lower :: "string \<Rightarrow> string" where
  "lower s = map lower_char s"

fun py_lower :: "json \<Rightarrow> exn + string" where
  "py_lower (JStr s) = Inr (lower s)"
| "py_lower _ = Inl (AttributeError ''lower'')"

text \<open>
  Iterating: a list gives its elements, a string its characters, a dict its keys; nothing
  else can be iterated.
\<close>

fun py_iter :: "json \<Rightarrow> exn + json list" where
  "py_iter (JArr xs) = Inr xs"
| "py_iter (JStr s) = Inr (map (\<lambda>c. JStr [c]) s)"
| "py_iter (JObj kvs) = Inr (map (\<lambda>kv. JStr (fst kv)) kvs)"
| "py_iter _ = Inl (TypeError ''iterate'')"

text \<open>
  \<^verbatim>\<open>sorted(iterable, key=...)\<close>: the keys of all elements are computed first, in order (the
  first failure is raised), then the elements are sorted by key, ascending and stable.
  Strings compare lexicographically by code point.
\<close>

fun keys_of :: "('a \<Rightarrow> exn + 'k) \<Rightarrow> 'a list \<Rightarrow> exn + 'k list" where
  "keys_of key [] = Inr []"
| "keys_of key (x # xs) =
     (case key x of
        Inl e \<Rightarrow> Inl e
      | Inr k \<Rightarrow> (case keys_of key xs of Inl e \<Rightarrow> Inl e | Inr ks \<Rightarrow> Inr (k # ks)))"

definition py_sorted :: "json \<Rightarrow> (json \<Rightarrow> exn + string) \<Rightarrow> exn + json list" where
  "py_sorted v key =
     (case py_iter v of
        Inl e \<Rightarrow> Inl e
      | Inr xs \<Rightarrow>
          (case keys_of key xs of
             Inl e \<Rightarrow> Inl e
           | Inr ks \<Rightarrow> Inr (map snd (sort_key fst (zip ks xs)))))"

section \<open>Helper functions\<close>

definition add_log :: "message \<Rightarrow> state \<Rightarrow> state" where
  "add_log msg st =
     (case log_text_area st of
        Some ls \<Rightarrow> st\<lparr>log_text_area := Some (ls @ [msg])\<rparr>
      | None \<Rightarrow> st\<lparr>trace := trace st @ [Print msg]\<rparr>)"

definition showerror :: "string \<Rightarrow> message \<Rightarrow> state \<Rightarrow> state" where
  "showerror title msg st = st\<lparr>trace := trace st @ [ShowError title msg]\<rparr>"

definition showinfo :: "string \<Rightarrow> message \<Rightarrow> state \<Rightarrow> state" where
  "showinfo title msg st = st\<lparr>trace := trace st @ [ShowInfo title msg]\<rparr>"

definition get_env_variable ::
    "world \<Rightarrow> string \<Rightarrow> message \<Rightarrow> state \<Rightarrow> string option \<times> state" where
  "get_env_variable w var_name error_message st =
     (let v = environ w var_name
      in if str_falsy v
         then (None, showerror ''Configuration Error'' error_message (add_log error_message st))
         else (v, st))"

definition get_auth_token :: "world \<Rightarrow> state \<Rightarrow> string option \<times> state" where
  "get_auth_token w st =
     get_env_variable w ''SUPA_AUTH_TOKEN''
       [Lit ''Error: Authorization token not found in environment variables!''] st"

definition auth_headers :: "string \<Rightarrow> (string \<times> string) list" where
  "auth_headers auth_token =
     [(''Authorization'', ''Bearer '' @ auth_token), (''Content-Type'', ''application/json'')]"

section \<open>Core logic\<close>

definition choose_file :: "world \<Rightarrow> state \<Rightarrow> state" where
  "choose_file w st =
     (let file_path_str = askopenfilename w;
          st1 = st\<lparr>trace := trace st @ [AskOpenFilename]\<rparr>
      in if file_path_str \<noteq> []
         then add_log [Lit ''Selected file: '', StrPath (Path file_path_str)]
                (st1\<lparr>selected_file := Some (Path file_path_str),
                     file_label := [Lit ''Selected: '', Lit (path_name (Path file_path_str))]\<rparr>)
         else add_log [Lit ''No file selected'']
                (st1\<lparr>selected_file := None, file_label := [Lit ''No file selected'']\<rparr>))"

subsection \<open>\<^verbatim>\<open>list_files\<close>\<close>

text \<open>The loop that fills the tree: a row per entry, until an entry raises.\<close>

definition row_of :: "json \<Rightarrow> exn + row" where
  "row_of file_item =
     (case py_get file_item ''name'' (JStr ''N/A'') of
        Inl e \<Rightarrow> Inl e
      | Inr file_name \<Rightarrow>
     (case py_get file_item ''metadata'' (JObj []) of
        Inl e \<Rightarrow> Inl e
      | Inr m1 \<Rightarrow>
     (case py_get m1 ''size'' (JNum 0) of
        Inl e \<Rightarrow> Inl e
      | Inr file_size \<Rightarrow>
     (case py_get file_item ''metadata'' (JObj []) of
        Inl e \<Rightarrow> Inl e
      | Inr m2 \<Rightarrow>
     (case py_get m2 ''lastModified'' (JStr ''N/A'') of
        Inl e \<Rightarrow> Inl e
      | Inr last_modified \<Rightarrow> Inr (file_name, file_size, last_modified))))))"

fun insert_rows :: "json list \<Rightarrow> state \<Rightarrow> exn option \<times> state" where
  "insert_rows [] st = (None, st)"
| "insert_rows (file_item # rest) st =
     (case row_of file_item of
        Inl e \<Rightarrow> (Some e, st)
      | Inr r \<Rightarrow> insert_rows rest (st\<lparr>file_tree := file_tree st @ [r]\<rparr>))"

definition name_key :: "json \<Rightarrow> exn + string" where
  "name_key f = (case py_get f ''name'' (JStr []) of Inl e \<Rightarrow> Inl e | Inr n \<Rightarrow> py_lower n)"

text \<open>
  The branch for status 200, up to the point where it ends or raises: the result is the
  exception raised, if any, and the state reached.
\<close>

definition list_files_200 :: "response \<Rightarrow> state \<Rightarrow> exn option \<times> state" where
  "list_files_200 resp st =
     (case rjson resp of
        Inl e \<Rightarrow> (Some e, st)
      | Inr response_data \<Rightarrow>
     (case py_getitem response_data ''message'' of
        Inl e \<Rightarrow> (Some e, st)
      | Inr m \<Rightarrow>
     (let st1 = add_log [Str m] st;
          st2 = st1\<lparr>file_tree := []\<rparr>
      in case py_get response_data ''files'' (JArr []) of
        Inl e \<Rightarrow> (Some e, st2)
      | Inr files \<Rightarrow>
     (case py_sorted files name_key of
        Inl e \<Rightarrow> (Some e, st2)
      | Inr files_to_display \<Rightarrow>
     (case insert_rows files_to_display st2 of
        (Some e, st3) \<Rightarrow> (Some e, st3)
      | (None, st3) \<Rightarrow>
     (case py_get response_data ''count'' (JNum 0) of
        Inl e \<Rightarrow> (Some e, st3)
      | Inr c \<Rightarrow> (None, add_log [Lit ''Retrieved '', Str c, Lit '' files.''] st3)))))))"

text \<open>The three handlers of \<^verbatim>\<open>list_files\<close>, tried in the order of the source.\<close>

definition list_files_except :: "response \<Rightarrow> exn \<Rightarrow> state \<Rightarrow> state" where
  "list_files_except resp e st =
     (if is_RequestException e then
        (let error_message = [Lit ''Network or API error during file listing: '', StrExn e]
         in showerror ''Network Error'' error_message (add_log error_message st))
      else if is_JSONDecodeError e then
        (let error_message =
               [Lit ''Failed to parse JSON response from API. Response: '', Lit (rtext resp)]
         in showerror ''API Error'' [Lit ''Invalid JSON response from server.'']
              (add_log error_message st))
      else
        (let error_message = [Lit ''An unexpected error occurred during file listing: '', StrExn e]
         in showerror ''Error'' error_message (add_log error_message st)))"

definition list_request :: "string \<Rightarrow> string \<Rightarrow> request" where
  "list_request u auth_token =
     \<lparr>url = u, headers = auth_headers auth_token,
      body = JObj [(''cmd'', JStr ''list'')], timeout = 30\<rparr>"

definition list_files :: "world \<Rightarrow> state \<Rightarrow> state" where
  "list_files w st =
     (case SUPA_UNPACK_API_URL st of
        None \<Rightarrow>
          add_log [Lit ''Error: SUPA_UNPACK_API_URL is not set.'']
            (showerror ''Configuration Error''
               [Lit ''API URL not configured. Please set SUPA_UNPACK_API_URL.''] st)
      | Some u \<Rightarrow>
          (let st1 = add_log [Lit ''Retrieving list of files...''] st;
               (auth_token, st2) = get_auth_token w st1
           in if str_falsy auth_token then st2
              else
                (let req = list_request u (the auth_token);
                     st3 = st2\<lparr>trace := trace st2 @ [Post req]\<rparr>
                 in case post w (posts (trace st2)) req of
                      Inl s \<Rightarrow>
                        (let error_message =
                               [Lit ''Network or API error during file listing: '',
                                StrExn (RequestException s)]
                         in showerror ''Network Error'' error_message (add_log error_message st3))
                    | Inr resp \<Rightarrow>
                        if status_code resp = 200 then
                          (case list_files_200 resp st3 of
                             (None, st4) \<Rightarrow> st4
                           | (Some e, st4) \<Rightarrow> list_files_except resp e st4)
                        else
                          (let error_message =
                                 [Lit ''Failed to list files:\<newline>Status Code: '',
                                  Str (JNum (status_code resp)),
                                  Lit ''\<newline>Response: '', Lit (rtext resp)]
                           in showerror ''Error'' error_message (add_log error_message st3)))))"

subsection \<open>\<^verbatim>\<open>submit_file\<close>\<close>

definition submit_request :: "string \<Rightarrow> string \<Rightarrow> string \<Rightarrow> string \<Rightarrow> request" where
  "submit_request u auth_token encoded_file filename =
     \<lparr>url = u, headers = auth_headers auth_token,
      body = JObj [(''input'', JStr encoded_file), (''filename'', JStr filename)],
      timeout = 30\<rparr>"

text \<open>The \<^verbatim>\<open>try\<close> block: the exception raised, if any, and the state reached.\<close>

definition submit_file_try :: "world \<Rightarrow> path \<Rightarrow> string \<Rightarrow> state \<Rightarrow> exn option \<times> state" where
  "submit_file_try w f u st =
     (let st1 = add_log [Lit ''Preparing to submit file: '', Lit (path_name f), Lit ''...''] st
      in case read_file w f of
           Inl e \<Rightarrow> (Some e, st1)
         | Inr file_content \<Rightarrow>
             (let encoded_file = b64encode file_content;
                  filename = path_name f;
                  (auth_token, st2) = get_auth_token w st1
              in if str_falsy auth_token then (None, st2)
                 else
                   (let req = submit_request u (the auth_token) encoded_file filename;
                        st3 = st2\<lparr>trace := trace st2 @ [Post req]\<rparr>
                    in case post w (posts (trace st2)) req of
                         Inl s \<Rightarrow> (Some (RequestException s), st3)
                       | Inr resp \<Rightarrow>
                           if status_code resp = 200 then
                             (None,
                              list_files w
                                (showinfo ''Success'' [Lit ''File submitted successfully!'']
                                   (add_log [Lit ''Response: '', Lit (rtext resp)]
                                      (add_log [Lit ''File submitted successfully!''] st3))))
                           else
                             (let error_message =
                                    [Lit ''Failed to submit file:\<newline>Status Code: '',
                                     Str (JNum (status_code resp)),
                                     Lit ''\<newline>Response: '', Lit (rtext resp)]
                              in (None, showerror ''Error'' error_message
                                          (add_log error_message st3))))))"

definition submit_file_except :: "exn \<Rightarrow> state \<Rightarrow> state" where
  "submit_file_except e st =
     (if is_RequestException e then
        (let error_message = [Lit ''Network or API error during submission: '', StrExn e]
         in showerror ''Network Error'' error_message (add_log error_message st))
      else
        (let error_message =
               [Lit ''An unexpected error occurred during file submission: '', StrExn e]
         in showerror ''Error'' error_message (add_log error_message st)))"

definition submit_file :: "world \<Rightarrow> state \<Rightarrow> state" where
  "submit_file w st =
     (case selected_file st of
        None \<Rightarrow>
          add_log [Lit ''Error: No file selected!'']
            (showerror ''Error'' [Lit ''No file selected!''] st)
      | Some f \<Rightarrow>
          (case SUPA_UNPACK_API_URL st of
             None \<Rightarrow>
               add_log [Lit ''Error: SUPA_UNPACK_API_URL is not set.'']
                 (showerror ''Configuration Error''
                    [Lit ''API URL not configured. Please set SUPA_UNPACK_API_URL.''] st)
           | Some u \<Rightarrow>
               (case submit_file_try w f u st of
                  (None, st') \<Rightarrow> st'
                | (Some e, st') \<Rightarrow> submit_file_except e st')))"

subsection \<open>\<^verbatim>\<open>download_file\<close>\<close>

text \<open>
  The event of a double click is the index of the row under the pointer, if there is one:
  \<^verbatim>\<open>file_tree.identify\<close> finds the item, and the first of its values is the file name.
\<close>

definition identify :: "row list \<Rightarrow> nat option \<Rightarrow> row option" where
  "identify tree event =
     (case event of
        None \<Rightarrow> None
      | Some i \<Rightarrow> if i < length tree then Some (tree ! i) else None)"

definition download_request :: "string \<Rightarrow> string \<Rightarrow> json \<Rightarrow> request" where
  "download_request u auth_token filename =
     \<lparr>url = u, headers = auth_headers auth_token,
      body = JObj [(''download'', filename)], timeout = 60\<rparr>"

definition download_file_try :: "world \<Rightarrow> json \<Rightarrow> string \<Rightarrow> state \<Rightarrow> exn option \<times> state" where
  "download_file_try w filename u st =
     (let (auth_token, st2) = get_auth_token w st
      in if str_falsy auth_token then (None, st2)
         else
           (let req = download_request u (the auth_token) filename;
                st3 = st2\<lparr>trace := trace st2 @ [Post req]\<rparr>
            in case post w (posts (trace st2)) req of
                 Inl s \<Rightarrow> (Some (RequestException s), st3)
               | Inr resp \<Rightarrow>
                   if status_code resp = 200 then
                     (let file_content = content resp;
                          save_path_str = asksaveasfilename w filename;
                          st4 = st3\<lparr>trace := trace st3 @ [AskSaveAsFilename filename]\<rparr>
                      in if save_path_str \<noteq> [] then
                           (let save_path = Path save_path_str
                            in case write_file w save_path file_content of
                                 Some e \<Rightarrow> (Some e, st4)
                               | None \<Rightarrow>
                                   (None,
                                    showinfo ''Success'' [Lit ''File saved to '', StrPath save_path]
                                      (add_log
                                         [Lit ''File '', Lit [CHR 0x27], Str filename, Lit [CHR 0x27],
                                          Lit '' downloaded and saved to '', StrPath save_path,
                                          Lit ''.'']
                                         (st4\<lparr>trace := trace st4
                                                  @ [Write save_path file_content]\<rparr>))))
                         else (None, add_log [Lit ''Download cancelled.''] st4))
                   else if status_code resp = 404 then
                     (let error_message =
                            [Lit ''File '', Lit [CHR 0x27], Str filename, Lit [CHR 0x27],
                             Lit '' not found on the server.'']
                      in (None, showerror ''Error'' error_message (add_log error_message st3)))
                   else
                     (let error_message =
                            [Lit ''Failed to download file:\<newline>Status Code: '',
                             Str (JNum (status_code resp)),
                             Lit ''\<newline>Response: '', Lit (rtext resp)]
                      in (None, showerror ''Error'' error_message (add_log error_message st3)))))"

definition download_file_except :: "exn \<Rightarrow> state \<Rightarrow> state" where
  "download_file_except e st =
     (if is_RequestException e then
        (let error_message = [Lit ''Network or API error during download: '', StrExn e]
         in showerror ''Network Error'' error_message (add_log error_message st))
      else
        (let error_message = [Lit ''An unexpected error occurred during download: '', StrExn e]
         in showerror ''Error'' error_message (add_log error_message st)))"

definition download_file :: "world \<Rightarrow> nat option \<Rightarrow> state \<Rightarrow> state" where
  "download_file w event st =
     (case identify (file_tree st) event of
        None \<Rightarrow> st
      | Some item \<Rightarrow>
          (let filename = fst item
           in if json_falsy filename then add_log [Lit ''No file selected for download.''] st
              else
                (case SUPA_MAIN_API_URL st of
                   None \<Rightarrow>
                     add_log [Lit ''Error: SUPA_MAIN_API_URL is not set.'']
                       (showerror ''Configuration Error''
                          [Lit ''API URL not configured. Please set SUPA_MAIN_API_URL.''] st)
                 | Some u \<Rightarrow>
                     (case download_file_try w filename u
                             (add_log [Lit ''Downloading file: '', Str filename] st) of
                        (None, st') \<Rightarrow> st'
                      | (Some e, st') \<Rightarrow> download_file_except e st'))))"

section \<open>Start-up\<close>

text \<open>
  The configuration part of \<^verbatim>\<open>main\<close>: the text widget for the log is created, the three
  variables are read with the local helper, which prints instead of logging, and the
  process exits with status 1 when one of them is missing.  The result is the exit status,
  if the process exits here, and the state.
\<close>

definition initial_get_env_variable ::
    "world \<Rightarrow> string \<Rightarrow> message \<Rightarrow> state \<Rightarrow> string option \<times> state" where
  "initial_get_env_variable w var_name error_message st =
     (let v = environ w var_name
      in if str_falsy v
         then (None, showerror ''Configuration Error'' error_message
                       (st\<lparr>trace := trace st @ [Print (error_message @ [Lit '' (via console)''])]\<rparr>))
         else (v, st))"

definition main_configuration :: "world \<Rightarrow> state \<Rightarrow> int option \<times> state" where
  "main_configuration w st =
     (let st0 = st\<lparr>selected_file := None, log_text_area := Some []\<rparr>;
          st1 = st0\<lparr>trace := trace st0 @ [Print [Lit ''Loading environment variables...'']]\<rparr>;
          (unpack_url, st2) =
             initial_get_env_variable w ''SUPA_UNPACK_API_URL''
               [Lit (''Error: SUPA_UNPACK_API_URL environment variable not set. '' @
                     ''Example: https://cc.supabase.co/functions/v1/super-worker/unpack?code=SGVsbG8K'')]
               st1;
          st3 = st2\<lparr>SUPA_UNPACK_API_URL := unpack_url\<rparr>;
          (main_url, st4) =
             initial_get_env_variable w ''SUPA_MAIN_API_URL''
               [Lit (''Error: SUPA_MAIN_API_URL environment variable not set. '' @
                     ''Example: https://cc.supabase.co/functions/v1/super-worker'')]
               st3;
          st5 = st4\<lparr>SUPA_MAIN_API_URL := main_url\<rparr>;
          (auth_token_check, st6) =
             initial_get_env_variable w ''SUPA_AUTH_TOKEN''
               [Lit ''Error: Authorization token (SUPA_AUTH_TOKEN) not found in environment variables!'']
               st5
      in if unpack_url = None \<or> main_url = None \<or> auth_token_check = None
         then (Some 1,
               showerror ''Configuration Error''
                 [Lit ''Application URLs or Token not fully configured. Exiting.''] st6)
         else (None, st6))"

section \<open>Notions used to state the properties\<close>

text \<open>
  The state in which \<^verbatim>\<open>list_files\<close> has logged its start and sent its request, before
  it looks at the answer.
\<close>

definition list_sent :: "string \<Rightarrow> string \<Rightarrow> state \<Rightarrow> state" where
  "list_sent u tok st =
     (let st1 = add_log [Lit ''Retrieving list of files...''] st
      in st1\<lparr>trace := trace st1 @ [Post (list_request u tok)]\<rparr>)"

text \<open>
  An entry of a listing as the wire format has it: an object whose \<^verbatim>\<open>name\<close> is a string
  and whose \<^verbatim>\<open>metadata\<close>, when present, is an object.  Its name, the key it is sorted by
  and the row it is shown as.
\<close>

fun wf_entry :: "json \<Rightarrow> bool" where
  "wf_entry (JObj kvs) =
     ((case map_of kvs ''name'' of Some (JStr n) \<Rightarrow> True | _ \<Rightarrow> False) \<and>
      (case map_of kvs ''metadata'' of None \<Rightarrow> True | Some (JObj m) \<Rightarrow> True | _ \<Rightarrow> False))"
| "wf_entry _ = False"

fun entry_name :: "json \<Rightarrow> string" where
  "entry_name (JObj kvs) = (case map_of kvs ''name'' of Some (JStr n) \<Rightarrow> n | _ \<Rightarrow> [])"
| "entry_name _ = []"

definition entry_key :: "json \<Rightarrow> string" where
  "entry_key f = lower (entry_name f)"

definition entry_row :: "json \<Rightarrow> row" where
  "entry_row f = (case row_of f of Inr r \<Rightarrow> r | Inl e \<Rightarrow> (JNull, JNull, JNull))"


text \<open>The effects of a trace that write a file or ask for a place to save one.\<close>

fun is_Write :: "effect \<Rightarrow> bool" where
  "is_Write (Write p bs) = True"
| "is_Write _ = False"

fun is_AskSaveAsFilename :: "effect \<Rightarrow> bool" where
  "is_AskSaveAsFilename (AskSaveAsFilename n) = True"
| "is_AskSaveAsFilename _ = False"

text \<open>
  A concrete setting for the scenarios: both addresses configured, the token in the
  environment, a file of ten bytes selected, one row in the cache, and a server that
  answers the upload and the listing as given.
\<close>

definition example_entry :: "string \<Rightarrow> json" where
  "example_entry n =
     JObj [(''name'', JStr n),
           (''metadata'', JObj [(''size'', JNum 10), (''lastModified'', JStr ''2024-01-01'')])]"

definition example_row :: "string \<Rightarrow> row" where
  "example_row n = (JStr n, JNum 10, JStr ''2024-01-01'')"

definition example_state :: state where
  "example_state =
     \<lparr>selected_file = Some (Path ''/home/user/report.pdf''),
      SUPA_UNPACK_API_URL = Some ''https://host/unpack'',
      SUPA_MAIN_API_URL = Some ''https://host/main'',
      log_text_area = Some [],
      file_label = [Lit ''Selected: '', Lit ''report.pdf''],
      file_tree = [example_row ''old.txt''],
      trace = []\<rparr>"

definition example_response :: "int \<Rightarrow> exn + json \<Rightarrow> response" where
  "example_response code js = \<lparr>status_code = code, rtext = ''body'', content = [37, 80, 68, 70], rjson = js\<rparr>"

definition ten_bytes :: "byte list" where
  "ten_bytes = [37, 80, 68, 70, 45, 49, 46, 52, 10, 37]"

definition example_world :: "(string \<rightharpoonup> string) \<Rightarrow> (request \<Rightarrow> string + response) \<Rightarrow> world" where
  "example_world env server =
     \<lparr>environ = env,
      post = (\<lambda>earlier req. server req),
      askopenfilename = ''/home/user/report.pdf'',
      asksaveasfilename = (\<lambda>n. ''/tmp/out.pdf''),
      read_file = (\<lambda>p. Inr ten_bytes),
      write_file = (\<lambda>p bs. None)\<rparr>"

definition example_env :: "string \<rightharpoonup> string" where
  "example_env = [''SUPA_AUTH_TOKEN'' \<mapsto> ''secret'']"

definition answering :: "int \<Rightarrow> json \<Rightarrow> world" where
  "answering code js = example_world example_env (\<lambda>req. Inr (example_response code (Inr js)))"

text \<open>The listing that shows the uploaded file, and the listing of the sort-order scenario.\<close>

definition report_body :: json where
  "report_body =
     JObj [(''message'', JStr ''ok''), (''files'', JArr [example_entry ''report.pdf'']),
           (''count'', JNum 1)]"


definition abc_files :: "json list" where
  "abc_files = [example_entry ''b.txt'', example_entry ''A.txt'', example_entry ''c.TXT'']"

definition abc_body :: json where
  "abc_body = JObj [(''message'', JStr ''ok''), (''files'', JArr abc_files), (''count'', JNum 3)]"

text \<open>
  The state in which \<^verbatim>\<open>submit_file\<close> has read the file and sent the upload, and the
  state in which it has reported the success of the upload, just before it calls
  \<^verbatim>\<open>list_files\<close>.
\<close>

definition submit_sent :: "string \<Rightarrow> string \<Rightarrow> path \<Rightarrow> byte list \<Rightarrow> state \<Rightarrow> state" where
  "submit_sent u tok f bs st =
     (let st1 = add_log [Lit ''Preparing to submit file: '', Lit (path_name f), Lit ''...''] st
      in st1\<lparr>trace := trace st1 @ [Post (submit_request u tok (b64encode bs) (path_name f))]\<rparr>)"

definition submit_reported :: "response \<Rightarrow> state \<Rightarrow> state" where
  "submit_reported resp st =
     showinfo ''Success'' [Lit ''File submitted successfully!'']
       (add_log [Lit ''Response: '', Lit (rtext resp)]
          (add_log [Lit ''File submitted successfully!''] st))"

text \<open>
  The answer to the upload, when \<^verbatim>\<open>submit_file\<close> gets as far as sending it, and whether
  that answer has status 200.
\<close>

definition submit_answer :: "world \<Rightarrow> state \<Rightarrow> (string + response) option" where
  "submit_answer w st =
     (case selected_file st of
        None \<Rightarrow> None
      | Some f \<Rightarrow>
          (case SUPA_UNPACK_API_URL st of
             None \<Rightarrow> None
           | Some u \<Rightarrow>
               (case read_file w f of
                  Inl e \<Rightarrow> None
                | Inr bs \<Rightarrow>
                    if str_falsy (environ w ''SUPA_AUTH_TOKEN'') then None
                    else Some (post w (posts (trace st))
                                 (submit_request u (the (environ w ''SUPA_AUTH_TOKEN''))
                                    (b64encode bs) (path_name f))))))"

definition submit_ok :: "world \<Rightarrow> state \<Rightarrow> bool" where
  "submit_ok w st =
     (case submit_answer w st of Some (Inr resp) \<Rightarrow> status_code resp = 200 | _ \<Rightarrow> False)"

text \<open>
  The answer to the request of \<^verbatim>\<open>list_files\<close>, when it gets as far as sending it, and
  whether the listing gets as far as emptying the tree: status 200, a body that parses,
  and a \<^verbatim>\<open>message\<close> in it.
\<close>

definition list_answer :: "world \<Rightarrow> state \<Rightarrow> (string + response) option" where
  "list_answer w st =
     (case SUPA_UNPACK_API_URL st of
        None \<Rightarrow> None
      | Some u \<Rightarrow>
          if str_falsy (environ w ''SUPA_AUTH_TOKEN'') then None
          else Some (post w (posts (trace st))
                       (list_request u (the (environ w ''SUPA_AUTH_TOKEN'')))))"

definition list_refreshes :: "world \<Rightarrow> state \<Rightarrow> bool" where
  "list_refreshes w st =
     (case list_answer w st of
        Some (Inr resp) \<Rightarrow>
          status_code resp = 200 \<and>
          (case rjson resp of
             Inl e \<Rightarrow> False
           | Inr v \<Rightarrow> (case py_getitem v ''message'' of Inl e \<Rightarrow> False | Inr m \<Rightarrow> True))
      | _ \<Rightarrow> False)"

text \<open>The state in which \<^verbatim>\<open>download_file\<close> has logged its start and sent its request.\<close>

definition download_sent :: "string \<Rightarrow> string \<Rightarrow> json \<Rightarrow> state \<Rightarrow> state" where
  "download_sent u tok filename st =
     (let st1 = add_log [Lit ''Downloading file: '', Str filename] st
      in st1\<lparr>trace := trace st1 @ [Post (download_request u tok filename)]\<rparr>)"

text \<open>
  A listing whose second entry has a \<^verbatim>\<open>metadata\<close> that is no object, and a body that
  has a \<^verbatim>\<open>message\<close> and nothing else.
\<close>

definition broken_body :: json where
  "broken_body =
     JObj [(''message'', JStr ''ok''),
           (''files'', JArr [example_entry ''a.txt'',
                             JObj [(''name'', JStr ''b.txt''), (''metadata'', JStr ''x'')]]),
           (''count'', JNum 2)]"


text \<open>An environment in which all three variables are set.\<close>

definition full_env :: "string \<rightharpoonup> string" where
  "full_env =
     [''SUPA_UNPACK_API_URL'' \<mapsto> ''https://host/unpack'',
      ''SUPA_MAIN_API_URL'' \<mapsto> ''https://host/main'',
      ''SUPA_AUTH_TOKEN'' \<mapsto> ''secret'']"

text \<open>
  What the cache holds after a listing, told from the answer to the list request and the
  cache before it alone.  An answer that is a network fault, has a status other than 200,
  does not parse or has no \<^verbatim>\<open>message\<close> leaves the old cache; any other answer replaces it
  by the rows of its entries in sorted order, up to the first entry that raises (by
  nothing at all when the entries cannot be sorted).
\<close>

fun rows_before_error :: "json list \<Rightarrow> row list" where
  "rows_before_error [] = []"
| "rows_before_error (file_item # rest) =
     (case row_of file_item of Inl e \<Rightarrow> [] | Inr r \<Rightarrow> r # rows_before_error rest)"

definition listed_cache :: "(string + response) \<Rightarrow> row list \<Rightarrow> row list" where
  "listed_cache answer old =
     (case answer of
        Inl s \<Rightarrow> old
      | Inr resp \<Rightarrow>
          if status_code resp \<noteq> 200 then old
          else
            (case rjson resp of
               Inl e \<Rightarrow> old
             | Inr v \<Rightarrow>
                 (case py_getitem v ''message'' of
                    Inl e \<Rightarrow> old
                  | Inr m \<Rightarrow>
                      (case py_get v ''files'' (JArr []) of
                         Inl e \<Rightarrow> []
                       | Inr files \<Rightarrow>
                           (case py_sorted files name_key of
                              Inl e \<Rightarrow> []
                            | Inr files_to_display \<Rightarrow> rows_before_error files_to_display)))))"

section \<open>Properties of the upload encoding\<close>

lemma index_of_nth: "distinct xs \<Longrightarrow> i < length xs \<Longrightarrow> index_of (xs ! i) xs = Some i"
proof (induction xs arbitrary: i)
  case Nil
  then show ?case by simp
next
  case (Cons y ys)
  show ?case
  proof (cases i)
    case 0
    then show ?thesis by simp
  next
    case (Suc j)
    with Cons.prems have "ys ! j \<in> set ys" "y \<notin> set ys" "distinct ys" "j < length ys" by auto
    with Cons.IH [of j] Suc show ?thesis by auto
  qed
qed

lemma b64_alphabet_length: "length b64_alphabet = 64"
  by (simp add: b64_alphabet_def)

lemma b64_alphabet_distinct: "distinct b64_alphabet"
  by (simp add: b64_alphabet_def)

lemma b64_alphabet_no_pad: "CHR ''='' \<notin> set b64_alphabet"
  by (simp add: b64_alphabet_def)

lemma b64_value_char: "i < 64 \<Longrightarrow> b64_value (b64_char i) = Some i"
  by (simp add: b64_value_def b64_char_def index_of_nth b64_alphabet_distinct b64_alphabet_length)

lemma b64_char_not_pad: "i < 64 \<Longrightarrow> b64_char i \<noteq> CHR ''=''"
proof -
  assume "i < 64"
  then have "b64_alphabet ! i \<in> set b64_alphabet"
    by (simp add: b64_alphabet_length)
  with b64_alphabet_no_pad show ?thesis
    by (auto simp: b64_char_def)
qed

lemma unat_byte_less: "unat (a :: byte) < 256"
  using unsigned_less [of a, where ?'a = nat] by simp

lemma div_mult_add: "r < n \<Longrightarrow> (q * n + r) div n = (q::nat)"
  by simp

lemma mod_mult_add: "r < n \<Longrightarrow> (q * n + r) mod n = (r::nat)"
  by simp

lemma hi_bounds:
  fixes x :: nat
  assumes "x < 256"
  shows "x div 4 < 64" "x div 16 < 16" "x div 64 < 4"
  using assms by (simp_all add: div_less_iff_less_mult)

lemma sextet_bounds:
  fixes x y z :: nat
  assumes "x < 256" "y < 256" "z < 256"
  shows "x div 4 < 64" "(x mod 4) * 16 < 64" "(x mod 4) * 16 + y div 16 < 64"
    "(y mod 16) * 4 < 64" "(y mod 16) * 4 + z div 64 < 64" "z mod 64 < 64"
proof -
  have a: "x mod 4 < 4" "y mod 16 < 16" by simp_all
  note b = hi_bounds [OF assms(1)] hi_bounds [OF assms(2)] hi_bounds [OF assms(3)]
  show "x div 4 < 64" by (rule b)
  show "(x mod 4) * 16 < 64" using a(1) by linarith
  show "(x mod 4) * 16 + y div 16 < 64" using a(1) b(5) by linarith
  show "(y mod 16) * 4 < 64" using a(2) by linarith
  show "(y mod 16) * 4 + z div 64 < 64" using a(2) b(9) by linarith
  show "z mod 64 < 64" by simp
qed

lemma sextet_join:
  fixes x y z :: nat
  assumes "x < 256" "y < 256" "z < 256"
  shows "(x div 4) * 4 + ((x mod 4) * 16 + y div 16) div 16 = x"
    "(x div 4) * 4 + ((x mod 4) * 16) div 16 = x"
    "(((x mod 4) * 16 + y div 16) mod 16) * 16 + ((y mod 16) * 4 + z div 64) div 4 = y"
    "(((x mod 4) * 16 + y div 16) mod 16) * 16 + ((y mod 16) * 4) div 4 = y"
    "(((y mod 16) * 4 + z div 64) mod 4) * 64 + z mod 64 = z"
proof -
  note b = hi_bounds [OF assms(1)] hi_bounds [OF assms(2)] hi_bounds [OF assms(3)]
  have d1: "((x mod 4) * 16 + y div 16) div 16 = x mod 4"
    by (rule div_mult_add) (rule b)
  have m1: "((x mod 4) * 16 + y div 16) mod 16 = y div 16"
    by (rule mod_mult_add) (rule b)
  have d2: "((y mod 16) * 4 + z div 64) div 4 = y mod 16"
    by (rule div_mult_add) (rule b)
  have m2: "((y mod 16) * 4 + z div 64) mod 4 = z div 64"
    by (rule mod_mult_add) (rule b)
  show "(x div 4) * 4 + ((x mod 4) * 16 + y div 16) div 16 = x"
    unfolding d1 by simp
  show "(x div 4) * 4 + ((x mod 4) * 16) div 16 = x"
    by simp
  show "(((x mod 4) * 16 + y div 16) mod 16) * 16 + ((y mod 16) * 4 + z div 64) div 4 = y"
    unfolding m1 d2 by simp
  show "(((x mod 4) * 16 + y div 16) mod 16) * 16 + ((y mod 16) * 4) div 4 = y"
    unfolding m1 by simp
  show "(((y mod 16) * 4 + z div 64) mod 4) * 64 + z mod 64 = z"
    unfolding m2 by simp
qed

lemma b64_group4_encode:
  "b64_group4 (b64_char (unat a div 4)) (b64_char ((unat a mod 4) * 16 + unat b div 16))
     (b64_char ((unat b mod 16) * 4 + unat c div 64)) (b64_char (unat c mod 64)) = Some [a, b, c]"
  using sextet_bounds [OF unat_byte_less [of a] unat_byte_less [of b] unat_byte_less [of c]]
    sextet_join [OF unat_byte_less [of a] unat_byte_less [of b] unat_byte_less [of c]]
  by (simp add: b64_group4_def b64_value_char)

lemma b64_group3_encode:
  "b64_group3 (b64_char (unat a div 4)) (b64_char ((unat a mod 4) * 16 + unat b div 16))
     (b64_char ((unat b mod 16) * 4)) = Some [a, b]"
  using sextet_bounds [OF unat_byte_less [of a] unat_byte_less [of b] unat_byte_less [of 0]]
    sextet_join [OF unat_byte_less [of a] unat_byte_less [of b] unat_byte_less [of 0]]
  by (simp add: b64_group3_def b64_value_char)

lemma b64_group2_encode:
  "b64_group2 (b64_char (unat a div 4)) (b64_char ((unat a mod 4) * 16)) = Some [a]"
  using sextet_bounds [OF unat_byte_less [of a] unat_byte_less [of 0] unat_byte_less [of 0]]
    sextet_join [OF unat_byte_less [of a] unat_byte_less [of 0] unat_byte_less [of 0]]
  by (simp add: b64_group2_def b64_value_char)

lemma b64encode_length: "length (b64encode bs) = 4 * ((length bs + 2) div 3)"
proof (induction bs rule: b64encode.induct)
  case (4 a b c rest)
  have "(length (a # b # c # rest) + 2) div 3 = Suc ((length rest + 2) div 3)"
    by simp
  with 4 show ?case by (simp add: Let_def)
qed (simp_all add: Let_def)

section \<open>What each step leaves alone\<close>

text \<open>
  Logging and dialogs touch neither the cache, the selection nor the addresses, and add
  no request to the trace; the same holds for the parts of \<^verbatim>\<open>list_files\<close> other than the
  request itself.  Then \<^verbatim>\<open>list_files\<close> branch by branch.
\<close>

lemma posts_append: "posts (xs @ ys) = posts xs @ posts ys"
  by (induction xs rule: posts.induct) simp_all

lemma add_log_fields:
  "file_tree (add_log m st) = file_tree st"
  "selected_file (add_log m st) = selected_file st"
  "SUPA_UNPACK_API_URL (add_log m st) = SUPA_UNPACK_API_URL st"
  "SUPA_MAIN_API_URL (add_log m st) = SUPA_MAIN_API_URL st"
  "posts (trace (add_log m st)) = posts (trace st)"
  by (simp_all add: add_log_def posts_append split: option.split)

lemma showerror_fields:
  "file_tree (showerror t m st) = file_tree st"
  "selected_file (showerror t m st) = selected_file st"
  "SUPA_UNPACK_API_URL (showerror t m st) = SUPA_UNPACK_API_URL st"
  "SUPA_MAIN_API_URL (showerror t m st) = SUPA_MAIN_API_URL st"
  "posts (trace (showerror t m st)) = posts (trace st)"
  by (simp_all add: showerror_def posts_append)

lemma showinfo_fields:
  "file_tree (showinfo t m st) = file_tree st"
  "selected_file (showinfo t m st) = selected_file st"
  "SUPA_UNPACK_API_URL (showinfo t m st) = SUPA_UNPACK_API_URL st"
  "SUPA_MAIN_API_URL (showinfo t m st) = SUPA_MAIN_API_URL st"
  "posts (trace (showinfo t m st)) = posts (trace st)"
  by (simp_all add: showinfo_def posts_append)

lemmas ui_fields = add_log_fields showerror_fields showinfo_fields

lemma get_env_variable_fields:
  "file_tree (snd (get_env_variable w v m st)) = file_tree st"
  "selected_file (snd (get_env_variable w v m st)) = selected_file st"
  "SUPA_UNPACK_API_URL (snd (get_env_variable w v m st)) = SUPA_UNPACK_API_URL st"
  "SUPA_MAIN_API_URL (snd (get_env_variable w v m st)) = SUPA_MAIN_API_URL st"
  "posts (trace (snd (get_env_variable w v m st))) = posts (trace st)"
  by (simp_all add: get_env_variable_def Let_def ui_fields)

lemma get_env_variable_fst:
  "fst (get_env_variable w v m st) = (if str_falsy (environ w v) then None else environ w v)"
  by (simp add: get_env_variable_def Let_def)

lemma get_env_variable_present:
  "\<not> str_falsy (environ w v) \<Longrightarrow> get_env_variable w v m st = (environ w v, st)"
  by (simp add: get_env_variable_def Let_def)

lemma insert_rows_fields:
  "selected_file (snd (insert_rows fs st)) = selected_file st"
  "SUPA_UNPACK_API_URL (snd (insert_rows fs st)) = SUPA_UNPACK_API_URL st"
  "SUPA_MAIN_API_URL (snd (insert_rows fs st)) = SUPA_MAIN_API_URL st"
  "trace (snd (insert_rows fs st)) = trace st"
  by (induction fs arbitrary: st; simp split: sum.split)+

lemma list_files_200_fields:
  "selected_file (snd (list_files_200 r st)) = selected_file st"
  "SUPA_UNPACK_API_URL (snd (list_files_200 r st)) = SUPA_UNPACK_API_URL st"
  "SUPA_MAIN_API_URL (snd (list_files_200 r st)) = SUPA_MAIN_API_URL st"
  "posts (trace (snd (list_files_200 r st))) = posts (trace st)"
  by (simp_all add: list_files_200_def Let_def ui_fields insert_rows_fields split_beta
        split: sum.split option.split)

lemma list_files_except_fields:
  "file_tree (list_files_except r e st) = file_tree st"
  "selected_file (list_files_except r e st) = selected_file st"
  "SUPA_UNPACK_API_URL (list_files_except r e st) = SUPA_UNPACK_API_URL st"
  "SUPA_MAIN_API_URL (list_files_except r e st) = SUPA_MAIN_API_URL st"
  "posts (trace (list_files_except r e st)) = posts (trace st)"
  by (simp_all add: list_files_except_def Let_def ui_fields)


lemma get_auth_token_missing:
  "str_falsy (environ w ''SUPA_AUTH_TOKEN'') \<Longrightarrow>
   get_auth_token w st =
     (None, showerror ''Configuration Error''
              [Lit ''Error: Authorization token not found in environment variables!'']
              (add_log [Lit ''Error: Authorization token not found in environment variables!''] st))"
  by (simp add: get_auth_token_def get_env_variable_def)

lemma get_auth_token_present:
  "environ w ''SUPA_AUTH_TOKEN'' = Some tok \<Longrightarrow> tok \<noteq> [] \<Longrightarrow>
   get_auth_token w st = (Some tok, st)"
  by (simp add: get_auth_token_def get_env_variable_def str_falsy_def)

lemma list_files_no_url:
  "SUPA_UNPACK_API_URL st = None \<Longrightarrow>
   list_files w st =
     add_log [Lit ''Error: SUPA_UNPACK_API_URL is not set.'']
       (showerror ''Configuration Error''
          [Lit ''API URL not configured. Please set SUPA_UNPACK_API_URL.''] st)"
  by (simp add: list_files_def)

lemma list_files_no_token:
  "SUPA_UNPACK_API_URL st = Some u \<Longrightarrow> str_falsy (environ w ''SUPA_AUTH_TOKEN'') \<Longrightarrow>
   list_files w st =
     showerror ''Configuration Error''
       [Lit ''Error: Authorization token not found in environment variables!'']
       (add_log [Lit ''Error: Authorization token not found in environment variables!'']
          (add_log [Lit ''Retrieving list of files...''] st))"
  by (simp add: list_files_def get_auth_token_missing Let_def str_falsy_def)

lemma list_files_sent:
  assumes "SUPA_UNPACK_API_URL st = Some u" "environ w ''SUPA_AUTH_TOKEN'' = Some tok" "tok \<noteq> []"
  shows "list_files w st =
     (case post w (posts (trace st)) (list_request u tok) of
        Inl s \<Rightarrow>
          showerror ''Network Error''
            [Lit ''Network or API error during file listing: '', StrExn (RequestException s)]
            (add_log
               [Lit ''Network or API error during file listing: '', StrExn (RequestException s)]
               (list_sent u tok st))
      | Inr resp \<Rightarrow>
          if status_code resp = 200 then
            (case list_files_200 resp (list_sent u tok st) of
               (None, st4) \<Rightarrow> st4
             | (Some e, st4) \<Rightarrow> list_files_except resp e st4)
          else
            showerror ''Error''
              [Lit ''Failed to list files:\<newline>Status Code: '', Str (JNum (status_code resp)),
               Lit ''\<newline>Response: '', Lit (rtext resp)]
              (add_log
                 [Lit ''Failed to list files:\<newline>Status Code: '', Str (JNum (status_code resp)),
                  Lit ''\<newline>Response: '', Lit (rtext resp)]
                 (list_sent u tok st)))"
  using assms
  by (simp add: list_files_def get_auth_token_present str_falsy_def list_sent_def Let_def
        add_log_fields split: sum.split)

lemma list_sent_fields:
  "file_tree (list_sent u tok st) = file_tree st"
  "selected_file (list_sent u tok st) = selected_file st"
  "SUPA_UNPACK_API_URL (list_sent u tok st) = SUPA_UNPACK_API_URL st"
  "SUPA_MAIN_API_URL (list_sent u tok st) = SUPA_MAIN_API_URL st"
  "posts (trace (list_sent u tok st)) = posts (trace st) @ [list_request u tok]"
  by (simp_all add: list_sent_def Let_def add_log_fields posts_append)

lemma list_files_posts:
  "posts (trace (list_files w st)) =
     posts (trace st) @
       (case SUPA_UNPACK_API_URL st of
          None \<Rightarrow> []
        | Some u \<Rightarrow>
            if str_falsy (environ w ''SUPA_AUTH_TOKEN'') then []
            else [list_request u (the (environ w ''SUPA_AUTH_TOKEN''))])"
proof (cases "SUPA_UNPACK_API_URL st")
  case None
  then show ?thesis by (simp add: list_files_no_url ui_fields)
next
  case (Some u)
  show ?thesis
  proof (cases "str_falsy (environ w ''SUPA_AUTH_TOKEN'')")
    case True
    with Some show ?thesis by (simp add: list_files_no_token ui_fields)
  next
    case False
    then obtain tok where tok: "environ w ''SUPA_AUTH_TOKEN'' = Some tok" "tok \<noteq> []"
      by (auto simp: str_falsy_def)
    show ?thesis
      using Some False tok
      by (simp add: list_files_sent [OF Some tok] ui_fields list_sent_fields
            list_files_200_fields list_files_except_fields split_beta
            split: sum.split option.split)
  qed
qed

lemma list_files_fields:
  "selected_file (list_files w st) = selected_file st"
  "SUPA_UNPACK_API_URL (list_files w st) = SUPA_UNPACK_API_URL st"
  "SUPA_MAIN_API_URL (list_files w st) = SUPA_MAIN_API_URL st"
proof -
  have "selected_file (list_files w st) = selected_file st \<and>
        SUPA_UNPACK_API_URL (list_files w st) = SUPA_UNPACK_API_URL st \<and>
        SUPA_MAIN_API_URL (list_files w st) = SUPA_MAIN_API_URL st"
  proof (cases "SUPA_UNPACK_API_URL st")
    case None
    then show ?thesis by (simp add: list_files_no_url ui_fields)
  next
    case (Some u)
    show ?thesis
    proof (cases "str_falsy (environ w ''SUPA_AUTH_TOKEN'')")
      case True
      with Some show ?thesis by (simp add: list_files_no_token ui_fields)
    next
      case False
      then obtain tok where tok: "environ w ''SUPA_AUTH_TOKEN'' = Some tok" "tok \<noteq> []"
        by (auto simp: str_falsy_def)
      show ?thesis
        using Some
        by (simp add: list_files_sent [OF Some tok] ui_fields list_sent_fields
              list_files_200_fields list_files_except_fields split_beta
              split: sum.split option.split)
    qed
  qed
  then show "selected_file (list_files w st) = selected_file st"
    "SUPA_UNPACK_API_URL (list_files w st) = SUPA_UNPACK_API_URL st"
    "SUPA_MAIN_API_URL (list_files w st) = SUPA_MAIN_API_URL st"
    by simp_all
qed

section \<open>The branches of the upload and of the download\<close>

lemma submit_sent_fields:
  "file_tree (submit_sent u tok f bs st) = file_tree st"
  "selected_file (submit_sent u tok f bs st) = selected_file st"
  "SUPA_UNPACK_API_URL (submit_sent u tok f bs st) = SUPA_UNPACK_API_URL st"
  "SUPA_MAIN_API_URL (submit_sent u tok f bs st) = SUPA_MAIN_API_URL st"
  "posts (trace (submit_sent u tok f bs st)) =
     posts (trace st) @ [submit_request u tok (b64encode bs) (path_name f)]"
  by (simp_all add: submit_sent_def Let_def add_log_fields posts_append)

lemma submit_reported_fields:
  "file_tree (submit_reported r st) = file_tree st"
  "selected_file (submit_reported r st) = selected_file st"
  "SUPA_UNPACK_API_URL (submit_reported r st) = SUPA_UNPACK_API_URL st"
  "SUPA_MAIN_API_URL (submit_reported r st) = SUPA_MAIN_API_URL st"
  "posts (trace (submit_reported r st)) = posts (trace st)"
  by (simp_all add: submit_reported_def ui_fields)

lemma submit_file_except_fields:
  "file_tree (submit_file_except e st) = file_tree st"
  "selected_file (submit_file_except e st) = selected_file st"
  "SUPA_UNPACK_API_URL (submit_file_except e st) = SUPA_UNPACK_API_URL st"
  "SUPA_MAIN_API_URL (submit_file_except e st) = SUPA_MAIN_API_URL st"
  "posts (trace (submit_file_except e st)) = posts (trace st)"
  by (simp_all add: submit_file_except_def Let_def ui_fields)

lemma submit_file_no_selection:
  "selected_file st = None \<Longrightarrow>
   submit_file w st =
     add_log [Lit ''Error: No file selected!''] (showerror ''Error'' [Lit ''No file selected!''] st)"
  by (simp add: submit_file_def)

lemma submit_file_no_url:
  "selected_file st = Some f \<Longrightarrow> SUPA_UNPACK_API_URL st = None \<Longrightarrow>
   submit_file w st =
     add_log [Lit ''Error: SUPA_UNPACK_API_URL is not set.'']
       (showerror ''Configuration Error''
          [Lit ''API URL not configured. Please set SUPA_UNPACK_API_URL.''] st)"
  by (simp add: submit_file_def)

lemma submit_file_unreadable:
  "selected_file st = Some f \<Longrightarrow> SUPA_UNPACK_API_URL st = Some u \<Longrightarrow> read_file w f = Inl e \<Longrightarrow>
   submit_file w st =
     submit_file_except e
       (add_log [Lit ''Preparing to submit file: '', Lit (path_name f), Lit ''...''] st)"
  by (simp add: submit_file_def submit_file_try_def)

lemma submit_file_no_token:
  "selected_file st = Some f \<Longrightarrow> SUPA_UNPACK_API_URL st = Some u \<Longrightarrow> read_file w f = Inr bs \<Longrightarrow>
   str_falsy (environ w ''SUPA_AUTH_TOKEN'') \<Longrightarrow>
   submit_file w st =
     showerror ''Configuration Error''
       [Lit ''Error: Authorization token not found in environment variables!'']
       (add_log [Lit ''Error: Authorization token not found in environment variables!'']
          (add_log [Lit ''Preparing to submit file: '', Lit (path_name f), Lit ''...''] st))"
  by (simp add: submit_file_def submit_file_try_def get_auth_token_missing Let_def str_falsy_def)

lemma submit_file_sent:
  assumes "selected_file st = Some f" "SUPA_UNPACK_API_URL st = Some u" "read_file w f = Inr bs"
    "environ w ''SUPA_AUTH_TOKEN'' = Some tok" "tok \<noteq> []"
  shows "submit_file w st =
     (case post w (posts (trace st)) (submit_request u tok (b64encode bs) (path_name f)) of
        Inl s \<Rightarrow> submit_file_except (RequestException s) (submit_sent u tok f bs st)
      | Inr resp \<Rightarrow>
          if status_code resp = 200
          then list_files w (submit_reported resp (submit_sent u tok f bs st))
          else
            showerror ''Error''
              [Lit ''Failed to submit file:\<newline>Status Code: '', Str (JNum (status_code resp)),
               Lit ''\<newline>Response: '', Lit (rtext resp)]
              (add_log
                 [Lit ''Failed to submit file:\<newline>Status Code: '', Str (JNum (status_code resp)),
                  Lit ''\<newline>Response: '', Lit (rtext resp)]
                 (submit_sent u tok f bs st)))"
  using assms
  by (simp add: submit_file_def submit_file_try_def get_auth_token_present str_falsy_def
        submit_sent_def submit_reported_def Let_def add_log_fields split: sum.split)

lemma download_sent_fields:
  "file_tree (download_sent u tok n st) = file_tree st"
  "selected_file (download_sent u tok n st) = selected_file st"
  "SUPA_UNPACK_API_URL (download_sent u tok n st) = SUPA_UNPACK_API_URL st"
  "SUPA_MAIN_API_URL (download_sent u tok n st) = SUPA_MAIN_API_URL st"
  "posts (trace (download_sent u tok n st)) = posts (trace st) @ [download_request u tok n]"
  by (simp_all add: download_sent_def Let_def add_log_fields posts_append)

lemma download_file_except_fields:
  "file_tree (download_file_except e st) = file_tree st"
  "selected_file (download_file_except e st) = selected_file st"
  "posts (trace (download_file_except e st)) = posts (trace st)"
  by (simp_all add: download_file_except_def Let_def ui_fields)

lemma download_file_try_fields:
  "file_tree (snd (download_file_try w n u st)) = file_tree st"
  "selected_file (snd (download_file_try w n u st)) = selected_file st"
  by (simp_all add: download_file_try_def Let_def split_beta ui_fields get_auth_token_def
        get_env_variable_fields split: sum.split option.split)

lemma download_file_try_posts:
  "posts (trace (snd (download_file_try w n u st))) =
     posts (trace st) @
       (if str_falsy (environ w ''SUPA_AUTH_TOKEN'') then []
        else [download_request u (the (environ w ''SUPA_AUTH_TOKEN'')) n])"
proof (cases "str_falsy (environ w ''SUPA_AUTH_TOKEN'')")
  case True
  then show ?thesis
    by (simp add: download_file_try_def get_auth_token_missing ui_fields str_falsy_def)
next
  case False
  then obtain tok where tok: "environ w ''SUPA_AUTH_TOKEN'' = Some tok" "tok \<noteq> []"
    by (auto simp: str_falsy_def)
  then show ?thesis
    by (simp add: download_file_try_def get_auth_token_present Let_def ui_fields str_falsy_def
          posts_append split: sum.split option.split)
qed

lemma download_file_fields:
  "file_tree (download_file w ev st) = file_tree st"
  "selected_file (download_file w ev st) = selected_file st"
  by (simp_all add: download_file_def Let_def split_beta ui_fields download_file_try_fields
        download_file_except_fields split: option.split)

lemma download_file_posts:
  "posts (trace (download_file w ev st)) =
     posts (trace st) @
       (case identify (file_tree st) ev of
          None \<Rightarrow> []
        | Some item \<Rightarrow>
            if json_falsy (fst item) then []
            else
              (case SUPA_MAIN_API_URL st of
                 None \<Rightarrow> []
               | Some u \<Rightarrow>
                   if str_falsy (environ w ''SUPA_AUTH_TOKEN'') then []
                   else [download_request u (the (environ w ''SUPA_AUTH_TOKEN'')) (fst item)]))"
  by (simp add: download_file_def Let_def split_beta ui_fields download_file_try_posts
        download_file_except_fields split: option.split)

lemma download_file_no_url:
  "identify (file_tree st) ev = Some item \<Longrightarrow> \<not> json_falsy (fst item) \<Longrightarrow>
   SUPA_MAIN_API_URL st = None \<Longrightarrow>
   download_file w ev st =
     add_log [Lit ''Error: SUPA_MAIN_API_URL is not set.'']
       (showerror ''Configuration Error''
          [Lit ''API URL not configured. Please set SUPA_MAIN_API_URL.''] st)"
  by (simp add: download_file_def)

lemma download_file_no_token:
  "identify (file_tree st) ev = Some item \<Longrightarrow> \<not> json_falsy (fst item) \<Longrightarrow>
   SUPA_MAIN_API_URL st = Some u \<Longrightarrow> str_falsy (environ w ''SUPA_AUTH_TOKEN'') \<Longrightarrow>
   download_file w ev st =
     showerror ''Configuration Error''
       [Lit ''Error: Authorization token not found in environment variables!'']
       (add_log [Lit ''Error: Authorization token not found in environment variables!'']
          (add_log [Lit ''Downloading file: '', Str (fst item)] st))"
  by (simp add: download_file_def download_file_try_def get_auth_token_missing Let_def
        str_falsy_def)

lemma download_file_404:
  assumes "identify (file_tree st) ev = Some item" "\<not> json_falsy (fst item)"
    "SUPA_MAIN_API_URL st = Some u" "environ w ''SUPA_AUTH_TOKEN'' = Some tok" "tok \<noteq> []"
    "post w (posts (trace st)) (download_request u tok (fst item)) = Inr r" "status_code r = 404"
  shows "download_file w ev st =
     showerror ''Error''
       [Lit ''File '', Lit [CHR 0x27], Str (fst item), Lit [CHR 0x27],
        Lit '' not found on the server.'']
       (add_log
          [Lit ''File '', Lit [CHR 0x27], Str (fst item), Lit [CHR 0x27],
           Lit '' not found on the server.'']
          (download_sent u tok (fst item) st))"
  using assms
  by (simp add: download_file_def download_file_try_def get_auth_token_present str_falsy_def
        download_sent_def Let_def add_log_fields)

section \<open>When the cache and the selection stay as they are\<close>

lemma list_files_200_early:
  "rjson r = Inl e \<Longrightarrow> list_files_200 r st = (Some e, st)"
  "rjson r = Inr v \<Longrightarrow> py_getitem v ''message'' = Inl e \<Longrightarrow> list_files_200 r st = (Some e, st)"
  by (simp_all add: list_files_200_def)

lemma token_cases:
  obtains "str_falsy (environ w ''SUPA_AUTH_TOKEN'')"
  | tok where "environ w ''SUPA_AUTH_TOKEN'' = Some tok" "tok \<noteq> []"
  by (cases "environ w ''SUPA_AUTH_TOKEN''") (auto simp: str_falsy_def)

lemma list_files_keeps_tree:
  assumes "\<not> list_refreshes w st"
  shows "file_tree (list_files w st) = file_tree st"
proof (cases "SUPA_UNPACK_API_URL st")
  case None
  then show ?thesis by (simp add: list_files_no_url ui_fields)
next
  case (Some u)
  show ?thesis
  proof (cases rule: token_cases [of w])
    case 1
    with Some show ?thesis by (simp add: list_files_no_token ui_fields)
  next
    case (2 tok)
    show ?thesis
    proof (cases "post w (posts (trace st)) (list_request u tok)")
      case (Inl s)
      then show ?thesis
        by (simp add: list_files_sent [OF Some 2] ui_fields list_sent_fields)
    next
      case (Inr r)
      show ?thesis
      proof (cases "status_code r = 200")
        case False
        with Inr show ?thesis
          by (simp add: list_files_sent [OF Some 2] ui_fields list_sent_fields)
      next
        case True
        from assms Some 2 Inr True
        have "(\<exists>e. rjson r = Inl e) \<or> (\<exists>v e. rjson r = Inr v \<and> py_getitem v ''message'' = Inl e)"
          by (auto simp: list_refreshes_def list_answer_def str_falsy_def split: sum.splits)
        then obtain e where "list_files_200 r (list_sent u tok st) = (Some e, list_sent u tok st)"
          by (auto simp: list_files_200_early)
        with Inr True show ?thesis
          by (simp add: list_files_sent [OF Some 2] list_files_except_fields list_sent_fields)
      qed
    qed
  qed
qed

lemma insert_rows_cong:
  "file_tree st = file_tree st' \<Longrightarrow>
   fst (insert_rows fs st) = fst (insert_rows fs st') \<and>
   file_tree (snd (insert_rows fs st)) = file_tree (snd (insert_rows fs st'))"
proof (induction fs arbitrary: st st')
  case Nil
  then show ?case by simp
next
  case (Cons f fs)
  show ?case
  proof (cases "row_of f")
    case (Inl e)
    with Cons.prems show ?thesis by simp
  next
    case (Inr r)
    have "file_tree (st\<lparr>file_tree := file_tree st @ [r]\<rparr>) =
        file_tree (st'\<lparr>file_tree := file_tree st' @ [r]\<rparr>)"
      using Cons.prems by simp
    from Cons.IH [OF this] Inr show ?thesis by simp
  qed
qed

lemma list_files_200_cong:
  assumes "file_tree st = file_tree st'"
  shows "fst (list_files_200 r st) = fst (list_files_200 r st') \<and>
    file_tree (snd (list_files_200 r st)) = file_tree (snd (list_files_200 r st'))"
proof -
  have c: "\<And>m fs. fst (insert_rows fs ((add_log m st)\<lparr>file_tree := []\<rparr>)) =
        fst (insert_rows fs ((add_log m st')\<lparr>file_tree := []\<rparr>)) \<and>
      file_tree (snd (insert_rows fs ((add_log m st)\<lparr>file_tree := []\<rparr>))) =
        file_tree (snd (insert_rows fs ((add_log m st')\<lparr>file_tree := []\<rparr>)))"
    by (rule insert_rows_cong) simp
  show ?thesis
    using assms
    by (simp add: list_files_200_def Let_def split_beta c add_log_fields
          split: sum.split option.split)
qed

lemma list_files_tree_cong:
  assumes "SUPA_UNPACK_API_URL st = SUPA_UNPACK_API_URL st'" "file_tree st = file_tree st'"
    "environ w ''SUPA_AUTH_TOKEN'' = environ w' ''SUPA_AUTH_TOKEN''"
    "list_answer w st = list_answer w' st'"
  shows "file_tree (list_files w st) = file_tree (list_files w' st')"
proof (cases "SUPA_UNPACK_API_URL st")
  case None
  with assms(1,2) show ?thesis by (simp add: list_files_no_url ui_fields)
next
  case (Some u)
  then have u': "SUPA_UNPACK_API_URL st' = Some u"
    using assms(1) by simp
  show ?thesis
  proof (cases rule: token_cases [of w])
    case 1
    then have "str_falsy (environ w' ''SUPA_AUTH_TOKEN'')"
      using assms(3) by simp
    with 1 Some u' assms(2) show ?thesis
      by (simp add: list_files_no_token ui_fields)
  next
    case (2 tok)
    then have tok': "environ w' ''SUPA_AUTH_TOKEN'' = Some tok" "tok \<noteq> []"
      using assms(3) by simp_all
    have eq: "post w (posts (trace st)) (list_request u tok) =
        post w' (posts (trace st')) (list_request u tok)"
      using assms(4) Some u' 2 tok' by (simp add: list_answer_def str_falsy_def)
    have t: "file_tree (list_sent u tok st) = file_tree (list_sent u tok st')"
      using assms(2) by (simp add: list_sent_fields)
    show ?thesis
      using list_files_200_cong [OF t] assms(2)
      by (simp add: list_files_sent [OF Some 2] list_files_sent [OF u' tok'] eq [symmetric]
            ui_fields list_sent_fields list_files_except_fields split_beta
            split: sum.split option.split)
  qed
qed

lemma submit_file_selected: "selected_file (submit_file w st) = selected_file st"
proof (cases "selected_file st")
  case None
  then show ?thesis by (simp add: submit_file_no_selection ui_fields)
next
  case (Some f)
  show ?thesis
  proof (cases "SUPA_UNPACK_API_URL st")
    case None
    with Some show ?thesis by (simp add: submit_file_no_url ui_fields)
  next
    case u: (Some u)
    show ?thesis
    proof (cases "read_file w f")
      case (Inl e)
      with Some u show ?thesis
        by (simp add: submit_file_unreadable submit_file_except_fields ui_fields)
    next
      case (Inr bs)
      show ?thesis
      proof (cases rule: token_cases [of w])
        case 1
        with Some u Inr show ?thesis by (simp add: submit_file_no_token ui_fields)
      next
        case (2 tok)
        show ?thesis
          using Some
          by (simp add: submit_file_sent [OF Some u Inr 2] submit_file_except_fields ui_fields
                submit_sent_fields submit_reported_fields list_files_fields split: sum.split)
      qed
    qed
  qed
qed

lemma submit_file_keeps_tree:
  assumes "\<not> submit_ok w st"
  shows "file_tree (submit_file w st) = file_tree st"
proof (cases "selected_file st")
  case None
  then show ?thesis by (simp add: submit_file_no_selection ui_fields)
next
  case (Some f)
  show ?thesis
  proof (cases "SUPA_UNPACK_API_URL st")
    case None
    with Some show ?thesis by (simp add: submit_file_no_url ui_fields)
  next
    case u: (Some u)
    show ?thesis
    proof (cases "read_file w f")
      case (Inl e)
      with Some u show ?thesis
        by (simp add: submit_file_unreadable submit_file_except_fields ui_fields)
    next
      case (Inr bs)
      show ?thesis
      proof (cases rule: token_cases [of w])
        case 1
        with Some u Inr show ?thesis by (simp add: submit_file_no_token ui_fields)
      next
        case (2 tok)
        show ?thesis
          using assms Some u Inr 2
          by (auto simp: submit_file_sent [OF Some u Inr 2] submit_file_except_fields ui_fields
                submit_sent_fields submit_ok_def submit_answer_def str_falsy_def
                split: sum.splits)
      qed
    qed
  qed
qed

lemma submit_file_posts:
  "posts (trace (submit_file w st)) =
     posts (trace st) @
       (case submit_answer w st of
          None \<Rightarrow> []
        | Some a \<Rightarrow>
            submit_request (the (SUPA_UNPACK_API_URL st)) (the (environ w ''SUPA_AUTH_TOKEN''))
              (b64encode (projr (read_file w (the (selected_file st)))))
              (path_name (the (selected_file st)))
            # (if submit_ok w st
               then [list_request (the (SUPA_UNPACK_API_URL st)) (the (environ w ''SUPA_AUTH_TOKEN''))]
               else []))"
proof (cases "selected_file st")
  case None
  then show ?thesis by (simp add: submit_file_no_selection ui_fields submit_answer_def)
next
  case (Some f)
  show ?thesis
  proof (cases "SUPA_UNPACK_API_URL st")
    case None
    with Some show ?thesis by (simp add: submit_file_no_url ui_fields submit_answer_def)
  next
    case u: (Some u)
    show ?thesis
    proof (cases "read_file w f")
      case (Inl e)
      with Some u show ?thesis
        by (simp add: submit_file_unreadable submit_file_except_fields ui_fields submit_answer_def)
    next
      case (Inr bs)
      show ?thesis
      proof (cases rule: token_cases [of w])
        case 1
        with Some u Inr show ?thesis
          by (simp add: submit_file_no_token ui_fields submit_answer_def)
      next
        case (2 tok)
        show ?thesis
          using Some u Inr 2
          by (simp add: submit_file_sent [OF Some u Inr 2] submit_file_except_fields ui_fields
                submit_sent_fields submit_reported_fields list_files_posts
                submit_ok_def submit_answer_def str_falsy_def split: sum.split)
      qed
    qed
  qed
qed

section \<open>The concrete setting\<close>

text \<open>What the example world and the example state hold, for use in the instances.\<close>

lemma example_path_name: "path_name (Path ''/home/user/report.pdf'') = ''report.pdf''"
  by code_simp

lemma ten_bytes_encoded: "b64encode ten_bytes = ''JVBERi0xLjQKJQ==''"
  by code_simp

lemma answering_fields:
  "environ (answering code js) ''SUPA_AUTH_TOKEN'' = Some ''secret''"
  "post (answering code js) earlier req = Inr (example_response code (Inr js))"
  "read_file (answering code js) p = Inr ten_bytes"
  by (simp_all add: answering_def example_world_def example_env_def)

lemma example_state_fields:
  "selected_file example_state = Some (Path ''/home/user/report.pdf'')"
  "SUPA_UNPACK_API_URL example_state = Some ''https://host/unpack''"
  "SUPA_MAIN_API_URL example_state = Some ''https://host/main''"
  "file_tree example_state = [example_row ''old.txt'']"
  "trace example_state = []"
  "log_text_area example_state = Some []"
  by (simp_all add: example_state_def)

lemma example_response_fields:
  "status_code (example_response code js) = code"
  "rjson (example_response code js) = js"
  by (simp_all add: example_response_def)

section \<open>The listing replaces the cache\<close>

lemma wf_entry_row: "wf_entry f \<Longrightarrow> row_of f = Inr (entry_row f)"
  by (cases f) (auto simp: entry_row_def row_of_def split: option.splits json.splits)


lemma wf_entry_key: "wf_entry f \<Longrightarrow> name_key f = Inr (entry_key f)"
  by (cases f) (auto simp: name_key_def entry_key_def split: option.splits json.splits)

lemma keys_of_total:
  "\<forall>x \<in> set xs. key x = Inr (k x) \<Longrightarrow> keys_of key xs = Inr (map k xs)"
  by (induction xs) simp_all

lemma insort_key_map:
  "insort_key f (g x) (map g ys) = map g (insort_key (\<lambda>y. f (g y)) x ys)"
  by (induction ys) simp_all

lemma sort_key_map: "sort_key f (map g xs) = map g (sort_key (\<lambda>y. f (g y)) xs)"
  by (induction xs) (simp_all add: insort_key_map)

lemma sort_decorated: "map snd (sort_key fst (zip (map k xs) xs)) = sort_key k xs"
proof -
  have "zip (map k xs) xs = map (\<lambda>x. (k x, x)) xs"
    by (induction xs) simp_all
  then show ?thesis
    by (simp add: sort_key_map comp_def)
qed

lemma py_sorted_entries:
  "\<forall>f \<in> set files. wf_entry f \<Longrightarrow>
   py_sorted (JArr files) name_key = Inr (sort_key entry_key files)"
  by (simp add: py_sorted_def keys_of_total [where k = entry_key] wf_entry_key sort_decorated)

lemma insert_rows_entries:
  "\<forall>f \<in> set fs. wf_entry f \<Longrightarrow>
   insert_rows fs st = (None, st\<lparr>file_tree := file_tree st @ map entry_row fs\<rparr>)"
  by (induction fs arbitrary: st) (simp_all add: wf_entry_row)

lemma list_files_200_entries:
  assumes "rjson r = Inr (JObj kvs)" "map_of kvs ''message'' = Some m"
    "map_of kvs ''files'' = Some (JArr files)" "\<forall>f \<in> set files. wf_entry f"
  shows "fst (list_files_200 r st) = None"
    "file_tree (snd (list_files_200 r st)) = map entry_row (sort_key entry_key files)"
proof -
  have wf: "\<forall>f \<in> set (sort_key entry_key files). wf_entry f"
    using assms(4) by simp
  show "fst (list_files_200 r st) = None"
    "file_tree (snd (list_files_200 r st)) = map entry_row (sort_key entry_key files)"
    using assms(1-3)
    by (simp_all add: list_files_200_def Let_def py_sorted_entries [OF assms(4)]
          insert_rows_entries [OF wf] add_log_fields)
qed

lemma list_files_entries:
  assumes "SUPA_UNPACK_API_URL st = Some u" "environ w ''SUPA_AUTH_TOKEN'' = Some tok" "tok \<noteq> []"
    "post w (posts (trace st)) (list_request u tok) = Inr r" "status_code r = 200"
    "rjson r = Inr (JObj kvs)" "map_of kvs ''message'' = Some m"
    "map_of kvs ''files'' = Some (JArr files)" "\<forall>f \<in> set files. wf_entry f"
  shows "file_tree (list_files w st) = map entry_row (sort_key entry_key files)"
  using list_files_200_entries [OF assms(6-9), of "list_sent u tok st"] assms(4,5)
  by (simp add: list_files_sent [OF assms(1-3)] split_beta split: option.split)




lemma example_entry_row: "entry_row (example_entry n) = example_row n"
  by (simp add: entry_row_def row_of_def example_entry_def example_row_def)



section \<open>The answers to the list request\<close>




section \<open>Failures and the cache\<close>

text \<open>
  Claim C3, as the specification has it, lets every failure of the listing leave the cache
  as it was.  \<^verbatim>\<open>list_files\<close> empties the tree as soon as it has read the \<^verbatim>\<open>message\<close> of a
  200 answer and fills it entry by entry: when the second entry of the answer raises, the
  failure is reported and the cache, which held \<^verbatim>\<open>old.txt\<close>, holds the first entry alone.
\<close>

theorem list_files_partial_counterexample:
  "file_tree example_state = [example_row ''old.txt''] \<and>
   list_files (answering 200 broken_body) example_state =
     example_state
       \<lparr>log_text_area :=
          Some [[Lit ''Retrieving list of files...''], [Str (JStr ''ok'')],
                [Lit ''An unexpected error occurred during file listing: '',
                 StrExn (AttributeError ''get'')]],
        file_tree := [example_row ''a.txt''],
        trace :=
          [Post (list_request ''https://host/unpack'' ''secret''),
           ShowError ''Error''
             [Lit ''An unexpected error occurred during file listing: '',
              StrExn (AttributeError ''get'')]]\<rparr>"
  by code_simp

text \<open>
  Claim C3, amended.  Every outcome of Download, every outcome of Submit in which the
  upload is not answered with status 200, and every failure of List that comes before the
  tree is emptied (address or token missing, network fault, a status other than 200, a
  body that does not parse, a body without \<^verbatim>\<open>message\<close>) leaves the cache equal to the
  cache before; no operation changes the selection.
\<close>

theorem failures_keep_cache:
  "(\<not> list_refreshes w st \<longrightarrow> file_tree (list_files w st) = file_tree st) \<and>
   selected_file (list_files w st) = selected_file st \<and>
   (\<not> submit_ok w st \<longrightarrow> file_tree (submit_file w st) = file_tree st) \<and>
   selected_file (submit_file w st) = selected_file st \<and>
   file_tree (download_file w ev st) = file_tree st \<and>
   selected_file (download_file w ev st) = selected_file st"
  by (simp add: list_files_keeps_tree list_files_fields submit_file_keeps_tree
        submit_file_selected download_file_fields)

theorem failures_keep_cache_witness:
  "\<not> list_refreshes (answering 500 report_body) example_state \<and>
   file_tree (list_files (answering 500 report_body) example_state) = [example_row ''old.txt''] \<and>
   \<not> list_refreshes (example_world example_env (\<lambda>req. Inl ''timed out'')) example_state \<and>
   file_tree (list_files (example_world example_env (\<lambda>req. Inl ''timed out'')) example_state) =
     [example_row ''old.txt''] \<and>
   \<not> submit_ok (answering 500 report_body) example_state \<and>
   file_tree (submit_file (answering 500 report_body) example_state) = [example_row ''old.txt'']"
proof -
  have a: "\<not> list_refreshes (answering 500 report_body) example_state"
    by (simp add: list_refreshes_def list_answer_def answering_fields example_state_fields
          example_response_fields str_falsy_def)
  have b: "\<not> list_refreshes (example_world example_env (\<lambda>req. Inl ''timed out'')) example_state"
    by (simp add: list_refreshes_def list_answer_def example_world_def example_env_def
          example_state_fields str_falsy_def)
  have c: "\<not> submit_ok (answering 500 report_body) example_state"
    by (simp add: submit_ok_def submit_answer_def answering_fields example_state_fields
          example_response_fields str_falsy_def)
  note t = failures_keep_cache [of "answering 500 report_body" example_state None]
  note n = failures_keep_cache [of "example_world example_env (\<lambda>req. Inl ''timed out'')"
      example_state None]
  show ?thesis
    using a b c t [THEN conjunct1, THEN mp, OF a] n [THEN conjunct1, THEN mp, OF b]
      t [THEN conjunct2, THEN conjunct2, THEN conjunct1, THEN mp, OF c]
    by (simp add: example_state_fields)
qed

section \<open>A successful upload is followed by one listing\<close>

lemma insert_rows_tree:
  "file_tree (snd (insert_rows fs st)) = file_tree st @ rows_before_error fs"
  by (induction fs arbitrary: st) (simp_all split: sum.split)

lemma list_files_200_tree:
  "status_code r = 200 \<Longrightarrow>
   file_tree (snd (list_files_200 r st)) = listed_cache (Inr r) (file_tree st)"
  by (simp add: list_files_200_def listed_cache_def Let_def split_beta insert_rows_tree
        add_log_fields split: sum.split option.split)

lemma list_files_tree:
  assumes "SUPA_UNPACK_API_URL st = Some u" "environ w ''SUPA_AUTH_TOKEN'' = Some tok" "tok \<noteq> []"
  shows "file_tree (list_files w st) =
    listed_cache (post w (posts (trace st)) (list_request u tok)) (file_tree st)"
proof (cases "post w (posts (trace st)) (list_request u tok)")
  case (Inl s)
  then show ?thesis
    by (simp add: list_files_sent [OF assms] listed_cache_def ui_fields list_sent_fields)
next
  case (Inr r)
  show ?thesis
  proof (cases "status_code r = 200")
    case False
    with Inr show ?thesis
      by (simp add: list_files_sent [OF assms] listed_cache_def ui_fields list_sent_fields)
  next
    case True
    have "file_tree (snd (list_files_200 r (list_sent u tok st))) =
        listed_cache (Inr r) (file_tree st)"
      using list_files_200_tree [OF True, of "list_sent u tok st"]
      by (simp add: list_sent_fields)
    with Inr True show ?thesis
      by (simp add: list_files_sent [OF assms] list_files_except_fields split_beta
            split: option.split)
  qed
qed

text \<open>
  Claim C4.  When the upload is answered with status 200, Submit goes on with exactly one
  listing: it sends the upload and then one list request, and its result is the result of
  \<^verbatim>\<open>list_files\<close> in the state where the success was reported, in which the cache is
  still the old one.  The cache at the end is what the answer to that list request makes
  of the old cache: for an answer with status 200 and a well-formed listing it is exactly
  the rows of the listed entries, sorted by lower-cased name; in general it is
  \<open>listed_cache\<close> of the answer.  It is the same whatever else the answer to the upload
  contains.  When the upload is not answered with status 200, or is not sent at all, the
  cache and the selection stay as they are.
\<close>

theorem submit_ok_lists_once:
  "(selected_file st = Some f \<and> SUPA_UNPACK_API_URL st = Some u \<and> read_file w f = Inr bs \<and>
    environ w ''SUPA_AUTH_TOKEN'' = Some tok \<and> tok \<noteq> [] \<and>
    post w (posts (trace st)) (submit_request u tok (b64encode bs) (path_name f)) = Inr r \<and>
    status_code r = 200 \<longrightarrow>
      submit_file w st = list_files w (submit_reported r (submit_sent u tok f bs st)) \<and>
      posts (trace (submit_file w st)) =
        posts (trace st) @ [submit_request u tok (b64encode bs) (path_name f), list_request u tok] \<and>
      file_tree (submit_reported r (submit_sent u tok f bs st)) = file_tree st \<and>
      file_tree (submit_file w st) =
        listed_cache
          (post w (posts (trace st) @ [submit_request u tok (b64encode bs) (path_name f)])
             (list_request u tok))
          (file_tree st) \<and>
      (\<forall>r2 kvs m files.
         post w (posts (trace st) @ [submit_request u tok (b64encode bs) (path_name f)])
           (list_request u tok) = Inr r2 \<and>
         status_code r2 = 200 \<and> rjson r2 = Inr (JObj kvs) \<and> map_of kvs ''message'' = Some m \<and>
         map_of kvs ''files'' = Some (JArr files) \<and> (\<forall>e \<in> set files. wf_entry e) \<longrightarrow>
         file_tree (submit_file w st) = map entry_row (sort_key entry_key files)) \<and>
      (\<forall>r'. status_code r' = 200 \<longrightarrow>
         file_tree
           (submit_file
              (w\<lparr>post := \<lambda>earlier req.
                   if earlier = posts (trace st) \<and>
                      req = submit_request u tok (b64encode bs) (path_name f)
                   then Inr r' else post w earlier req\<rparr>) st) =
         file_tree (submit_file w st)) \<and>
      selected_file (submit_file w st) = selected_file st) \<and>
   (\<not> submit_ok w st \<longrightarrow>
      file_tree (submit_file w st) = file_tree st \<and>
      selected_file (submit_file w st) = selected_file st)"
proof -
  let ?req = "submit_request u tok (b64encode bs) (path_name f)"
  let ?st1 = "submit_sent u tok f bs st"
  have keep: "\<not> submit_ok w st \<longrightarrow>
      file_tree (submit_file w st) = file_tree st \<and>
      selected_file (submit_file w st) = selected_file st"
    by (simp add: submit_file_keeps_tree submit_file_selected)
  have ok: "submit_file w st = list_files w (submit_reported r ?st1) \<and>
      posts (trace (submit_file w st)) = posts (trace st) @ [?req, list_request u tok] \<and>
      file_tree (submit_reported r ?st1) = file_tree st \<and>
      file_tree (submit_file w st) =
        listed_cache (post w (posts (trace st) @ [?req]) (list_request u tok)) (file_tree st) \<and>
      (\<forall>r2 kvs m files.
         post w (posts (trace st) @ [?req]) (list_request u tok) = Inr r2 \<and>
         status_code r2 = 200 \<and> rjson r2 = Inr (JObj kvs) \<and> map_of kvs ''message'' = Some m \<and>
         map_of kvs ''files'' = Some (JArr files) \<and> (\<forall>e \<in> set files. wf_entry e) \<longrightarrow>
         file_tree (submit_file w st) = map entry_row (sort_key entry_key files)) \<and>
      (\<forall>r'. status_code r' = 200 \<longrightarrow>
         file_tree
           (submit_file
              (w\<lparr>post := \<lambda>earlier req.
                   if earlier = posts (trace st) \<and> req = ?req
                   then Inr r' else post w earlier req\<rparr>) st) =
         file_tree (submit_file w st)) \<and>
      selected_file (submit_file w st) = selected_file st"
    if h: "selected_file st = Some f" "SUPA_UNPACK_API_URL st = Some u" "read_file w f = Inr bs"
      "environ w ''SUPA_AUTH_TOKEN'' = Some tok" "tok \<noteq> []"
      and p: "post w (posts (trace st)) ?req = Inr r"
      and c: "status_code r = 200"
  proof -
    have eq: "submit_file w st = list_files w (submit_reported r ?st1)"
      using p c by (simp add: submit_file_sent [OF h])
    have sent: "posts (trace (submit_file w st)) = posts (trace st) @ [?req, list_request u tok]"
      unfolding eq using h
      by (simp add: list_files_posts submit_reported_fields submit_sent_fields str_falsy_def)
    have old: "file_tree (submit_reported r ?st1) = file_tree st"
      by (simp add: submit_reported_fields submit_sent_fields)
    have u1: "SUPA_UNPACK_API_URL (submit_reported r ?st1) = Some u"
      using h(2) by (simp add: submit_reported_fields submit_sent_fields)
    have p1: "posts (trace (submit_reported r ?st1)) = posts (trace st) @ [?req]"
      by (simp add: submit_reported_fields submit_sent_fields)
    have cache: "file_tree (submit_file w st) =
        listed_cache (post w (posts (trace st) @ [?req]) (list_request u tok)) (file_tree st)"
      unfolding eq using list_files_tree [OF u1 h(4,5)] by (simp add: p1 old)
    have listed: "file_tree (submit_file w st) = map entry_row (sort_key entry_key files)"
      if a: "post w (posts (trace st) @ [?req]) (list_request u tok) = Inr r2"
        "status_code r2 = 200" "rjson r2 = Inr (JObj kvs)" "map_of kvs ''message'' = Some m"
        "map_of kvs ''files'' = Some (JArr files)" "\<forall>e \<in> set files. wf_entry e"
      for r2 kvs m files
    proof -
      have "post w (posts (trace (submit_reported r ?st1))) (list_request u tok) = Inr r2"
        using a(1) by (simp add: p1)
      from list_files_entries [OF u1 h(4,5) this a(2-6)] show ?thesis
        unfolding eq .
    qed
    have indep: "file_tree
           (submit_file
              (w\<lparr>post := \<lambda>earlier req.
                   if earlier = posts (trace st) \<and> req = ?req
                   then Inr r' else post w earlier req\<rparr>) st) =
         file_tree (submit_file w st)" if c': "status_code r' = 200" for r'
    proof -
      let ?w' = "w\<lparr>post := \<lambda>earlier req.
                   if earlier = posts (trace st) \<and> req = ?req
                   then Inr r' else post w earlier req\<rparr>"
      have h': "read_file ?w' f = Inr bs" "environ ?w' ''SUPA_AUTH_TOKEN'' = Some tok"
        using h by simp_all
      have p': "post ?w' (posts (trace st)) ?req = Inr r'"
        by simp
      have eq': "submit_file ?w' st = list_files ?w' (submit_reported r' ?st1)"
        using p' c' by (simp add: submit_file_sent [OF h(1,2) h' h(5)])
      have "file_tree (list_files ?w' (submit_reported r' ?st1)) =
          file_tree (list_files w (submit_reported r ?st1))"
        by (rule list_files_tree_cong)
          (simp_all add: submit_reported_fields submit_sent_fields list_answer_def h)
      then show ?thesis
        unfolding eq eq' .
    qed
    show ?thesis
      using eq sent old cache listed indep submit_file_selected [of w st] by blast
  qed
  show ?thesis
    using keep ok by blast
qed

theorem submit_ok_lists_once_witness:
  "posts (trace (submit_file (answering 200 report_body) example_state)) =
     [submit_request ''https://host/unpack'' ''secret'' ''JVBERi0xLjQKJQ=='' ''report.pdf'',
      list_request ''https://host/unpack'' ''secret''] \<and>
   file_tree example_state = [example_row ''old.txt''] \<and>
   file_tree (submit_file (answering 200 report_body) example_state) =
     [example_row ''report.pdf''] \<and>
   \<not> submit_ok (answering 500 report_body) example_state \<and>
   file_tree (submit_file (answering 500 report_body) example_state) = [example_row ''old.txt'']"
proof -
  let ?kvs = "[(''message'', JStr ''ok''), (''files'', JArr [example_entry ''report.pdf'']),
           (''count'', JNum 1)]"
  have a: "selected_file example_state = Some (Path ''/home/user/report.pdf'') \<and>
      SUPA_UNPACK_API_URL example_state = Some ''https://host/unpack'' \<and>
      read_file (answering 200 report_body) (Path ''/home/user/report.pdf'') = Inr ten_bytes \<and>
      environ (answering 200 report_body) ''SUPA_AUTH_TOKEN'' = Some ''secret'' \<and> ''secret'' \<noteq> [] \<and>
      post (answering 200 report_body) (posts (trace example_state))
        (submit_request ''https://host/unpack'' ''secret'' (b64encode ten_bytes)
           (path_name (Path ''/home/user/report.pdf''))) =
        Inr (example_response 200 (Inr report_body)) \<and>
      status_code (example_response 200 (Inr report_body)) = 200"
    by (simp add: answering_fields example_state_fields example_response_fields
          del: path_name.simps)
  have b: "\<not> submit_ok (answering 500 report_body) example_state"
    by (simp add: submit_ok_def submit_answer_def answering_fields example_state_fields
          example_response_fields str_falsy_def)
  have l: "post (answering 200 report_body)
        (posts (trace example_state) @
           [submit_request ''https://host/unpack'' ''secret'' (b64encode ten_bytes)
              (path_name (Path ''/home/user/report.pdf''))])
        (list_request ''https://host/unpack'' ''secret'') =
        Inr (example_response 200 (Inr report_body)) \<and>
      status_code (example_response 200 (Inr report_body)) = 200 \<and>
      rjson (example_response 200 (Inr report_body)) = Inr (JObj ?kvs) \<and>
      map_of ?kvs ''message'' = Some (JStr ''ok'') \<and>
      map_of ?kvs ''files'' = Some (JArr [example_entry ''report.pdf'']) \<and>
      (\<forall>e \<in> set [example_entry ''report.pdf'']. wf_entry e)"
    by (simp add: answering_fields example_response_fields report_body_def example_entry_def
          del: path_name.simps)
  note ok = submit_ok_lists_once [of example_state "Path ''/home/user/report.pdf''"
      "''https://host/unpack''" "answering 200 report_body" ten_bytes "''secret''"
      "example_response 200 (Inr report_body)", THEN conjunct1, THEN mp, OF a]
  note keep = submit_ok_lists_once [of example_state "Path ''/home/user/report.pdf''"
      "''https://host/unpack''" "answering 500 report_body" ten_bytes "''secret''"
      "example_response 500 (Inr report_body)", THEN conjunct2, THEN mp, OF b]
  note listed = ok [THEN conjunct2, THEN conjunct2, THEN conjunct2, THEN conjunct2,
      THEN conjunct1, THEN spec, THEN spec, THEN spec, THEN spec, THEN mp, OF l]
  have "posts (trace (submit_file (answering 200 report_body) example_state)) =
     [submit_request ''https://host/unpack'' ''secret'' ''JVBERi0xLjQKJQ=='' ''report.pdf'',
      list_request ''https://host/unpack'' ''secret'']"
    using ok [THEN conjunct2, THEN conjunct1]
    unfolding example_path_name ten_bytes_encoded example_state_fields by simp
  moreover
  have "file_tree (submit_file (answering 200 report_body) example_state) =
      [example_row ''report.pdf'']"
    unfolding listed by (simp add: example_entry_row)
  moreover
  have "file_tree (submit_file (answering 500 report_body) example_state) = [example_row ''old.txt'']"
    using keep [THEN conjunct1] unfolding example_state_fields .
  ultimately show ?thesis
    using b by (simp add: example_state_fields)
qed

section \<open>The round trip of the upload encoding\<close>

text \<open>
  Claim C5.  Decoding the upload encoding of a byte string gives the byte string back, for
  every byte string.  The decoder is no part of the client, which never decodes; it is the
  inverse that RFC 4648 prescribes, four characters at a time, with the padding of the
  last group.
\<close>

theorem b64_roundtrip: "b64decode (b64encode bs) = Some bs"
proof (induction bs rule: b64encode.induct)
  case 1
  then show ?case by simp
next
  case (2 a)
  then show ?case by (simp add: Let_def b64_group2_encode)
next
  case (3 a b)
  have "b64_char ((unat b mod 16) * 4) \<noteq> CHR ''=''"
    by (rule b64_char_not_pad) (use unat_byte_less [of b] in auto)
  then show ?case by (simp add: Let_def b64_group3_encode)
next
  case (4 a b c rest)
  have np: "b64_char (unat c mod 64) \<noteq> CHR ''=''"
    by (rule b64_char_not_pad) simp
  show ?case
  proof (cases "b64encode rest")
    case Nil
    with 4 np show ?thesis by (simp add: Let_def b64_group4_encode)
  next
    case (Cons d ds)
    with 4 show ?thesis by (simp add: Let_def b64_group4_encode)
  qed
qed

section \<open>A download the server does not know\<close>

text \<open>
  Claim C6.  A download that the server answers with status 404 reports that the file was
  not found on the server, in a dialog and in the log; the save dialog is not asked,
  nothing is written, and the cache stays as it is.
\<close>

theorem download_404_not_found:
  assumes "identify (file_tree st) ev = Some item" "\<not> json_falsy (fst item)"
    "SUPA_MAIN_API_URL st = Some u" "environ w ''SUPA_AUTH_TOKEN'' = Some tok" "tok \<noteq> []"
    "post w (posts (trace st)) (download_request u tok (fst item)) = Inr r" "status_code r = 404"
  shows "download_file w ev st =
      showerror ''Error''
        [Lit ''File '', Lit [CHR 0x27], Str (fst item), Lit [CHR 0x27],
         Lit '' not found on the server.'']
        (add_log
           [Lit ''File '', Lit [CHR 0x27], Str (fst item), Lit [CHR 0x27],
            Lit '' not found on the server.'']
           (download_sent u tok (fst item) st)) \<and>
    filter is_Write (trace (download_file w ev st)) = filter is_Write (trace st) \<and>
    filter is_AskSaveAsFilename (trace (download_file w ev st)) =
      filter is_AskSaveAsFilename (trace st) \<and>
    file_tree (download_file w ev st) = file_tree st"
  unfolding download_file_404 [OF assms]
  by (simp add: showerror_def add_log_def download_sent_def Let_def split: option.split)

theorem download_404_not_found_witness:
  "download_file (example_world example_env (\<lambda>req. Inr (example_response 404 (Inl (JSONDecodeError ''body'')))))
     (Some 0) example_state =
   example_state
     \<lparr>log_text_area :=
        Some [[Lit ''Downloading file: '', Str (JStr ''old.txt'')],
              [Lit ''File '', Lit [CHR 0x27], Str (JStr ''old.txt''), Lit [CHR 0x27],
               Lit '' not found on the server.'']],
      trace :=
        [Post (download_request ''https://host/main'' ''secret'' (JStr ''old.txt'')),
         ShowError ''Error''
           [Lit ''File '', Lit [CHR 0x27], Str (JStr ''old.txt''), Lit [CHR 0x27],
            Lit '' not found on the server.'']]\<rparr>"
proof -
  let ?w = "example_world example_env (\<lambda>req. Inr (example_response 404 (Inl (JSONDecodeError ''body''))))"
  have h1: "identify (file_tree example_state) (Some 0) = Some (example_row ''old.txt'')"
    by (simp add: identify_def example_state_def)
  have h2: "\<not> json_falsy (fst (example_row ''old.txt''))"
    by (simp add: example_row_def)
  have h3: "SUPA_MAIN_API_URL example_state = Some ''https://host/main''"
    by (simp add: example_state_def)
  have h4: "environ ?w ''SUPA_AUTH_TOKEN'' = Some ''secret''"
    by (simp add: example_world_def example_env_def)
  have h5: "''secret'' \<noteq> []"
    by simp
  have h6: "post ?w (posts (trace example_state))
      (download_request ''https://host/main'' ''secret'' (fst (example_row ''old.txt'')))
      = Inr (example_response 404 (Inl (JSONDecodeError ''body'')))"
    by (simp add: example_world_def)
  have h7: "status_code (example_response 404 (Inl (JSONDecodeError ''body''))) = 404"
    by (simp add: example_response_def)
  from download_404_not_found [OF h1 h2 h3 h4 h5 h6 h7] show ?thesis
    by (simp add: showerror_def add_log_def download_sent_def example_state_def example_row_def)
qed

section \<open>Missing configuration\<close>

lemma submit_file_unconfigured_posts:
  assumes "SUPA_UNPACK_API_URL st = None \<or> str_falsy (environ w ''SUPA_AUTH_TOKEN'')"
  shows "posts (trace (submit_file w st)) = posts (trace st)"
proof -
  have "submit_answer w st = None"
    using assms by (auto simp: submit_answer_def split: option.splits sum.splits)
  then show ?thesis
    by (simp add: submit_file_posts)
qed

text \<open>
  Claim C7, as the specification has it, lets every operation attempted without an address
  or a token report the missing configuration.  \<^verbatim>\<open>submit_file\<close> looks at the selection
  first: with no file selected, no address and no token, it reports "No file selected!"
  and nothing about the configuration.
\<close>

theorem submit_file_unconfigured_counterexample:
  "SUPA_UNPACK_API_URL (example_state\<lparr>selected_file := None, SUPA_UNPACK_API_URL := None\<rparr>) = None \<and>
   environ (example_world Map.empty (\<lambda>req. Inl ''unreachable'')) ''SUPA_AUTH_TOKEN'' = None \<and>
   submit_file (example_world Map.empty (\<lambda>req. Inl ''unreachable''))
     (example_state\<lparr>selected_file := None, SUPA_UNPACK_API_URL := None\<rparr>) =
   example_state
     \<lparr>selected_file := None, SUPA_UNPACK_API_URL := None,
      log_text_area := Some [[Lit ''Error: No file selected!'']],
      trace := [ShowError ''Error'' [Lit ''No file selected!'']]\<rparr>"
  by (simp add: submit_file_def example_state_def example_world_def add_log_def showerror_def)

text \<open>
  Claim C7, amended.  An operation attempted while the address it needs or the token is
  missing sends no request.  It reports the missing configuration, in a dialog titled
  "Configuration Error" and in the log, whenever it gets as far as the check: List always;
  Submit when a file is selected (and, for the token, can be read); Download when the
  double click hit a row with a name.
\<close>

theorem unconfigured_sends_nothing:
  "(SUPA_UNPACK_API_URL st = None \<or> str_falsy (environ w ''SUPA_AUTH_TOKEN'') \<longrightarrow>
      posts (trace (list_files w st)) = posts (trace st) \<and>
      posts (trace (submit_file w st)) = posts (trace st)) \<and>
   (SUPA_MAIN_API_URL st = None \<or> str_falsy (environ w ''SUPA_AUTH_TOKEN'') \<longrightarrow>
      posts (trace (download_file w ev st)) = posts (trace st)) \<and>
   (SUPA_UNPACK_API_URL st = None \<longrightarrow>
      list_files w st =
        add_log [Lit ''Error: SUPA_UNPACK_API_URL is not set.'']
          (showerror ''Configuration Error''
             [Lit ''API URL not configured. Please set SUPA_UNPACK_API_URL.''] st)) \<and>
   (SUPA_UNPACK_API_URL st = Some u \<and> str_falsy (environ w ''SUPA_AUTH_TOKEN'') \<longrightarrow>
      list_files w st =
        showerror ''Configuration Error''
          [Lit ''Error: Authorization token not found in environment variables!'']
          (add_log [Lit ''Error: Authorization token not found in environment variables!'']
             (add_log [Lit ''Retrieving list of files...''] st))) \<and>
   (selected_file st = Some f \<and> SUPA_UNPACK_API_URL st = None \<longrightarrow>
      submit_file w st =
        add_log [Lit ''Error: SUPA_UNPACK_API_URL is not set.'']
          (showerror ''Configuration Error''
             [Lit ''API URL not configured. Please set SUPA_UNPACK_API_URL.''] st)) \<and>
   (selected_file st = Some f \<and> SUPA_UNPACK_API_URL st = Some u \<and> read_file w f = Inr bs \<and>
    str_falsy (environ w ''SUPA_AUTH_TOKEN'') \<longrightarrow>
      submit_file w st =
        showerror ''Configuration Error''
          [Lit ''Error: Authorization token not found in environment variables!'']
          (add_log [Lit ''Error: Authorization token not found in environment variables!'']
             (add_log [Lit ''Preparing to submit file: '', Lit (path_name f), Lit ''...''] st))) \<and>
   (identify (file_tree st) ev = Some item \<and> \<not> json_falsy (fst item) \<and>
    SUPA_MAIN_API_URL st = None \<longrightarrow>
      download_file w ev st =
        add_log [Lit ''Error: SUPA_MAIN_API_URL is not set.'']
          (showerror ''Configuration Error''
             [Lit ''API URL not configured. Please set SUPA_MAIN_API_URL.''] st)) \<and>
   (identify (file_tree st) ev = Some item \<and> \<not> json_falsy (fst item) \<and>
    SUPA_MAIN_API_URL st = Some u' \<and> str_falsy (environ w ''SUPA_AUTH_TOKEN'') \<longrightarrow>
      download_file w ev st =
        showerror ''Configuration Error''
          [Lit ''Error: Authorization token not found in environment variables!'']
          (add_log [Lit ''Error: Authorization token not found in environment variables!'']
             (add_log [Lit ''Downloading file: '', Str (fst item)] st)))"
proof -
  have a: "SUPA_UNPACK_API_URL st = None \<or> str_falsy (environ w ''SUPA_AUTH_TOKEN'') \<longrightarrow>
      posts (trace (list_files w st)) = posts (trace st) \<and>
      posts (trace (submit_file w st)) = posts (trace st)"
    by (auto simp: list_files_posts submit_file_unconfigured_posts split: option.splits)
  have b: "SUPA_MAIN_API_URL st = None \<or> str_falsy (environ w ''SUPA_AUTH_TOKEN'') \<longrightarrow>
      posts (trace (download_file w ev st)) = posts (trace st)"
    by (auto simp: download_file_posts split: option.splits)
  show ?thesis
    using a b
    by (simp add: list_files_no_url list_files_no_token submit_file_no_url submit_file_no_token
          download_file_no_url download_file_no_token del: path_name.simps)
qed

theorem unconfigured_sends_nothing_witness:
  "str_falsy (environ (example_world [''SUPA_AUTH_TOKEN'' \<mapsto> ''''] (\<lambda>req. Inl ''unreachable''))
      ''SUPA_AUTH_TOKEN'') \<and>
   list_files (example_world [''SUPA_AUTH_TOKEN'' \<mapsto> ''''] (\<lambda>req. Inl ''unreachable''))
     example_state =
   example_state
     \<lparr>log_text_area :=
        Some [[Lit ''Retrieving list of files...''],
              [Lit ''Error: Authorization token not found in environment variables!'']],
      trace :=
        [ShowError ''Configuration Error''
           [Lit ''Error: Authorization token not found in environment variables!'']]\<rparr> \<and>
   posts (trace (submit_file (example_world [''SUPA_AUTH_TOKEN'' \<mapsto> ''''] (\<lambda>req. Inl ''unreachable''))
     example_state)) = [] \<and>
   posts (trace (download_file (example_world [''SUPA_AUTH_TOKEN'' \<mapsto> ''''] (\<lambda>req. Inl ''unreachable''))
     (Some 0) example_state)) = []"
proof -
  let ?w = "example_world [''SUPA_AUTH_TOKEN'' \<mapsto> ''''] (\<lambda>req. Inl ''unreachable'')"
  have t: "str_falsy (environ ?w ''SUPA_AUTH_TOKEN'')"
    by (simp add: example_world_def str_falsy_def)
  have u: "SUPA_UNPACK_API_URL example_state = Some ''https://host/unpack'' \<and>
      str_falsy (environ ?w ''SUPA_AUTH_TOKEN'')"
    using t by (simp add: example_state_fields)
  have d1: "SUPA_UNPACK_API_URL example_state = None \<or> str_falsy (environ ?w ''SUPA_AUTH_TOKEN'')"
    and d2: "SUPA_MAIN_API_URL example_state = None \<or> str_falsy (environ ?w ''SUPA_AUTH_TOKEN'')"
    using t by simp_all
  note c = unconfigured_sends_nothing [of example_state ?w "Some 0" "''https://host/unpack''"]
  note c1 = c [THEN conjunct1, THEN mp, OF d1, THEN conjunct2]
  note c2 = c [THEN conjunct2, THEN conjunct1, THEN mp, OF d2]
  note c4 = c [THEN conjunct2, THEN conjunct2, THEN conjunct2, THEN conjunct1, THEN mp, OF u]
  show ?thesis
    using t unfolding c1 c2 c4
    by (simp add: showerror_def add_log_def example_state_def)
qed

section \<open>Submitting without a selection\<close>

text \<open>
  Claim C8.  Submit with no file selected shows the error "No file selected!", logs it,
  and sends nothing: the result does not depend on the world at all, and the cache and
  the selection stay as they are.
\<close>

theorem submit_file_without_selection:
  assumes "selected_file st = None"
  shows "submit_file w st =
      add_log [Lit ''Error: No file selected!''] (showerror ''Error'' [Lit ''No file selected!''] st) \<and>
    posts (trace (submit_file w st)) = posts (trace st) \<and>
    file_tree (submit_file w st) = file_tree st \<and>
    selected_file (submit_file w st) = None"
  using assms by (simp add: submit_file_no_selection ui_fields)

theorem submit_file_without_selection_witness:
  "submit_file (example_world example_env (\<lambda>req. Inr (example_response 200 (Inr abc_body))))
     (example_state\<lparr>selected_file := None\<rparr>) =
   example_state
     \<lparr>selected_file := None,
      log_text_area := Some [[Lit ''Error: No file selected!'']],
      trace := [ShowError ''Error'' [Lit ''No file selected!'']]\<rparr>"
proof -
  have "selected_file (example_state\<lparr>selected_file := None\<rparr>) = None"
    by simp
  from submit_file_without_selection [OF this] show ?thesis
    by (simp add: add_log_def showerror_def example_state_def)
qed

section \<open>The scenario of the ten-byte file\<close>

lemma wf_entry_row_fst: "wf_entry f \<Longrightarrow> fst (entry_row f) = JStr (entry_name f)"
  by (cases f) (auto simp: entry_row_def row_of_def split: option.splits json.splits)

lemma ten_bytes_length: "length bs = 10 \<Longrightarrow> length (b64encode bs) = 16"
  by (simp add: b64encode_length)

text \<open>
  Claim C9, as the specification has it, lets the ten bytes encode to at most 14
  characters.  \<^verbatim>\<open>base64.b64encode\<close> pads: the ten bytes of the scenario are sent as
  16 characters.
\<close>

theorem submit_ten_bytes_counterexample:
  "length ten_bytes = 10 \<and>
   posts (trace (submit_file (answering 200 report_body) example_state)) =
     [submit_request ''https://host/unpack'' ''secret'' ''JVBERi0xLjQKJQ=='' ''report.pdf'',
      list_request ''https://host/unpack'' ''secret''] \<and>
   \<not> length ''JVBERi0xLjQKJQ=='' \<le> 14"
proof -
  have "submit_ok (answering 200 report_body) example_state"
    by (simp add: submit_ok_def submit_answer_def answering_fields example_state_fields
          example_response_fields str_falsy_def)
  then have "posts (trace (submit_file (answering 200 report_body) example_state)) =
     [submit_request ''https://host/unpack'' ''secret'' (b64encode ten_bytes)
        (path_name (Path ''/home/user/report.pdf'')),
      list_request ''https://host/unpack'' ''secret'']"
    by (simp add: submit_file_posts submit_answer_def answering_fields example_state_fields
          str_falsy_def del: path_name.simps)
  then show ?thesis
    unfolding example_path_name ten_bytes_encoded by (simp add: ten_bytes_def)
qed

text \<open>
  Claim C9, amended.  With the token and the unpack address configured and a selected
  file of exactly ten bytes, Submit encodes the content to a base64 string of exactly 16
  characters, POSTs it with the file's name to the unpack address, and on a 200 answer
  sends the list request; when the listing that comes back contains an entry with the
  file's name, the cache then contains a row with that name.
\<close>

theorem submit_ten_bytes:
  assumes "selected_file st = Some f" "SUPA_UNPACK_API_URL st = Some u" "read_file w f = Inr bs"
    "length bs = 10" "environ w ''SUPA_AUTH_TOKEN'' = Some tok" "tok \<noteq> []"
    "post w (posts (trace st)) (submit_request u tok (b64encode bs) (path_name f)) = Inr r"
    "status_code r = 200"
    "post w (posts (trace st) @ [submit_request u tok (b64encode bs) (path_name f)])
       (list_request u tok) = Inr r2"
    "status_code r2 = 200" "rjson r2 = Inr (JObj kvs)" "map_of kvs ''message'' = Some m"
    "map_of kvs ''files'' = Some (JArr files)" "\<forall>e \<in> set files. wf_entry e"
    "e \<in> set files" "entry_name e = path_name f"
  shows "length (b64encode bs) = 16 \<and>
    posts (trace (submit_file w st)) =
      posts (trace st) @ [submit_request u tok (b64encode bs) (path_name f), list_request u tok] \<and>
    url (submit_request u tok (b64encode bs) (path_name f)) = u \<and>
    body (submit_request u tok (b64encode bs) (path_name f)) =
      JObj [(''input'', JStr (b64encode bs)), (''filename'', JStr (path_name f))] \<and>
    JStr (path_name f) \<in> fst ` set (file_tree (submit_file w st))"
proof -
  let ?req = "submit_request u tok (b64encode bs) (path_name f)"
  let ?st1 = "submit_reported r (submit_sent u tok f bs st)"
  have eq: "submit_file w st = list_files w ?st1"
    using assms(7,8) by (simp add: submit_file_sent [OF assms(1-3,5,6)])
  have sent: "posts (trace (submit_file w st)) = posts (trace st) @ [?req, list_request u tok]"
    unfolding eq using assms(2,5,6)
    by (simp add: list_files_posts submit_reported_fields submit_sent_fields str_falsy_def)
  have u1: "SUPA_UNPACK_API_URL ?st1 = Some u"
    using assms(2) by (simp add: submit_reported_fields submit_sent_fields)
  have p1: "post w (posts (trace ?st1)) (list_request u tok) = Inr r2"
    using assms(9) by (simp add: submit_reported_fields submit_sent_fields)
  have tree: "file_tree (submit_file w st) = map entry_row (sort_key entry_key files)"
    unfolding eq by (rule list_files_entries [OF u1 assms(5,6) p1 assms(10-14)])
  have "entry_row e \<in> set (file_tree (submit_file w st))"
    unfolding tree using assms(15) by simp
  moreover have "fst (entry_row e) = JStr (path_name f)"
    using assms(14-16) by (simp add: wf_entry_row_fst)
  ultimately have "JStr (path_name f) \<in> fst ` set (file_tree (submit_file w st))"
    by (metis imageI)
  then show ?thesis
    using sent ten_bytes_length [OF assms(4)] by (simp add: submit_request_def)
qed

theorem submit_ten_bytes_witness:
  "length (b64encode ten_bytes) = 16 \<and>
   JStr ''report.pdf'' \<in> fst ` set (file_tree (submit_file (answering 200 report_body) example_state))"
proof -
  let ?kvs = "[(''message'', JStr ''ok''), (''files'', JArr [example_entry ''report.pdf'']),
           (''count'', JNum 1)]"
  have h: "selected_file example_state = Some (Path ''/home/user/report.pdf'')"
    "SUPA_UNPACK_API_URL example_state = Some ''https://host/unpack''"
    "read_file (answering 200 report_body) (Path ''/home/user/report.pdf'') = Inr ten_bytes"
    "length ten_bytes = 10"
    "environ (answering 200 report_body) ''SUPA_AUTH_TOKEN'' = Some ''secret''"
    "''secret'' \<noteq> []"
    "post (answering 200 report_body) (posts (trace example_state))
       (submit_request ''https://host/unpack'' ''secret'' (b64encode ten_bytes)
          (path_name (Path ''/home/user/report.pdf''))) = Inr (example_response 200 (Inr report_body))"
    "status_code (example_response 200 (Inr report_body)) = 200"
    "post (answering 200 report_body)
       (posts (trace example_state) @
          [submit_request ''https://host/unpack'' ''secret'' (b64encode ten_bytes)
             (path_name (Path ''/home/user/report.pdf''))])
       (list_request ''https://host/unpack'' ''secret'') = Inr (example_response 200 (Inr report_body))"
    "status_code (example_response 200 (Inr report_body)) = 200"
    "rjson (example_response 200 (Inr report_body)) = Inr (JObj ?kvs)"
    "map_of ?kvs ''message'' = Some (JStr ''ok'')"
    "map_of ?kvs ''files'' = Some (JArr [example_entry ''report.pdf''])"
    "\<forall>e \<in> set [example_entry ''report.pdf'']. wf_entry e"
    "example_entry ''report.pdf'' \<in> set [example_entry ''report.pdf'']"
    "entry_name (example_entry ''report.pdf'') = path_name (Path ''/home/user/report.pdf'')"
    by (simp_all add: answering_fields example_state_fields example_response_fields
          report_body_def example_entry_def example_path_name ten_bytes_def
          del: path_name.simps)
  from submit_ten_bytes [OF h] show ?thesis
    unfolding example_path_name by simp
qed

section \<open>Empty configuration values\<close>

lemma list_files_token_falsy:
  assumes "str_falsy (environ w ''SUPA_AUTH_TOKEN'')" "str_falsy (environ w' ''SUPA_AUTH_TOKEN'')"
  shows "list_files w st = list_files w' st"
proof (cases "SUPA_UNPACK_API_URL st")
  case None
  then show ?thesis by (simp add: list_files_no_url)
next
  case (Some u)
  with assms show ?thesis by (simp add: list_files_no_token)
qed

lemma submit_file_token_falsy:
  assumes "str_falsy (environ w ''SUPA_AUTH_TOKEN'')" "str_falsy (environ w' ''SUPA_AUTH_TOKEN'')"
    "read_file w = read_file w'"
  shows "submit_file w st = submit_file w' st"
proof (cases "selected_file st")
  case None
  then show ?thesis by (simp add: submit_file_no_selection)
next
  case (Some f)
  show ?thesis
  proof (cases "SUPA_UNPACK_API_URL st")
    case None
    with Some show ?thesis by (simp add: submit_file_no_url)
  next
    case u: (Some u)
    show ?thesis
    proof (cases "read_file w f")
      case (Inl e)
      then have "read_file w' f = Inl e"
        using assms(3) by simp
      with Inl Some u show ?thesis by (simp add: submit_file_unreadable)
    next
      case (Inr bs)
      then have "read_file w' f = Inr bs"
        using assms(3) by simp
      with Inr Some u assms(1,2) show ?thesis by (simp add: submit_file_no_token)
    qed
  qed
qed

lemma download_file_token_falsy:
  assumes "str_falsy (environ w ''SUPA_AUTH_TOKEN'')" "str_falsy (environ w' ''SUPA_AUTH_TOKEN'')"
  shows "download_file w ev st = download_file w' ev st"
  using assms
  by (simp add: download_file_def download_file_try_def get_auth_token_missing Let_def
        str_falsy_def split: option.split)

lemma sent_requests_have_token:
  assumes "posts (trace st') = posts (trace st) @ new"
    "\<forall>req \<in> set new. \<not> str_falsy (environ w ''SUPA_AUTH_TOKEN'') \<and>
       headers req = auth_headers (the (environ w ''SUPA_AUTH_TOKEN''))"
  shows "\<forall>req \<in> set (drop (length (posts (trace st))) (posts (trace st'))).
    \<exists>tok. tok \<noteq> [] \<and> environ w ''SUPA_AUTH_TOKEN'' = Some tok \<and> headers req = auth_headers tok"
  using assms by (auto simp: str_falsy_def)

lemma list_files_requests_have_token:
  "\<forall>req \<in> set (drop (length (posts (trace st))) (posts (trace (list_files w st)))).
    \<exists>tok. tok \<noteq> [] \<and> environ w ''SUPA_AUTH_TOKEN'' = Some tok \<and> headers req = auth_headers tok"
  by (rule sent_requests_have_token [OF list_files_posts])
    (auto simp: list_request_def split: option.splits if_splits)

lemma submit_file_requests_have_token:
  "\<forall>req \<in> set (drop (length (posts (trace st))) (posts (trace (submit_file w st)))).
    \<exists>tok. tok \<noteq> [] \<and> environ w ''SUPA_AUTH_TOKEN'' = Some tok \<and> headers req = auth_headers tok"
  by (rule sent_requests_have_token [OF submit_file_posts])
    (auto simp: list_request_def submit_request_def submit_answer_def
       split: option.splits sum.splits if_splits)

lemma download_file_requests_have_token:
  "\<forall>req \<in> set (drop (length (posts (trace st))) (posts (trace (download_file w ev st)))).
    \<exists>tok. tok \<noteq> [] \<and> environ w ''SUPA_AUTH_TOKEN'' = Some tok \<and> headers req = auth_headers tok"
  by (rule sent_requests_have_token [OF download_file_posts])
    (auto simp: download_request_def split: option.splits if_splits)

lemma initial_get_env_variable_fst:
  "fst (initial_get_env_variable w v m st) = (if str_falsy (environ w v) then None else environ w v)"
  by (simp add: initial_get_env_variable_def Let_def)

lemma initial_get_env_variable_urls:
  "SUPA_UNPACK_API_URL (snd (initial_get_env_variable w v m st)) = SUPA_UNPACK_API_URL st"
  "SUPA_MAIN_API_URL (snd (initial_get_env_variable w v m st)) = SUPA_MAIN_API_URL st"
  by (simp_all add: initial_get_env_variable_def Let_def showerror_def)

lemma main_configuration_exit:
  "fst (main_configuration w st) =
     (if str_falsy (environ w ''SUPA_UNPACK_API_URL'') \<or> str_falsy (environ w ''SUPA_MAIN_API_URL'') \<or>
         str_falsy (environ w ''SUPA_AUTH_TOKEN'')
      then Some 1 else None)"
  by (simp add: main_configuration_def Let_def split_beta initial_get_env_variable_fst
        str_falsy_def)

lemma main_configuration_urls:
  "SUPA_UNPACK_API_URL (snd (main_configuration w st)) =
     (if str_falsy (environ w ''SUPA_UNPACK_API_URL'') then None else environ w ''SUPA_UNPACK_API_URL'')"
  "SUPA_MAIN_API_URL (snd (main_configuration w st)) =
     (if str_falsy (environ w ''SUPA_MAIN_API_URL'') then None else environ w ''SUPA_MAIN_API_URL'')"
  by (simp_all add: main_configuration_def Let_def split_beta initial_get_env_variable_fst
        initial_get_env_variable_urls showerror_def)

lemma initial_get_env_variable_cong:
  "environ w v = environ w' v \<or> (str_falsy (environ w v) \<and> str_falsy (environ w' v)) \<Longrightarrow>
   initial_get_env_variable w v m st = initial_get_env_variable w' v m st"
  by (auto simp: initial_get_env_variable_def Let_def)

lemma main_configuration_cong:
  assumes "\<forall>v. environ w v = environ w' v \<or> (str_falsy (environ w v) \<and> str_falsy (environ w' v))"
  shows "main_configuration w st = main_configuration w' st"
proof -
  have "\<And>v m s. initial_get_env_variable w v m s = initial_get_env_variable w' v m s"
    using assms by (intro initial_get_env_variable_cong) simp
  then show ?thesis
    by (simp add: main_configuration_def)
qed


text \<open>
  Claim C10.  A variable that is set to the empty string is treated exactly as a variable
  that is not set: both helpers give the same result and the same report, the start-up
  exits with status 1 for an empty token or address as it does for a missing one, the
  three operations do the same with an empty token as with none, and so the addresses
  kept after a start-up that does not exit are not empty and every request that an
  operation sends carries a token that is not empty.
\<close>

theorem empty_value_is_absent:
  "get_env_variable (w\<lparr>environ := (environ w)(v \<mapsto> [])\<rparr>) v m st =
     get_env_variable (w\<lparr>environ := (environ w)(v := None)\<rparr>) v m st \<and>
   fst (get_env_variable (w\<lparr>environ := (environ w)(v \<mapsto> [])\<rparr>) v m st) = None \<and>
   initial_get_env_variable (w\<lparr>environ := (environ w)(v \<mapsto> [])\<rparr>) v m st =
     initial_get_env_variable (w\<lparr>environ := (environ w)(v := None)\<rparr>) v m st \<and>
   fst (initial_get_env_variable (w\<lparr>environ := (environ w)(v \<mapsto> [])\<rparr>) v m st) = None \<and>
   main_configuration (w\<lparr>environ := (environ w)(v \<mapsto> [])\<rparr>) st =
     main_configuration (w\<lparr>environ := (environ w)(v := None)\<rparr>) st \<and>
   (v \<in> {''SUPA_UNPACK_API_URL'', ''SUPA_MAIN_API_URL'', ''SUPA_AUTH_TOKEN''} \<longrightarrow>
      fst (main_configuration (w\<lparr>environ := (environ w)(v \<mapsto> [])\<rparr>) st) = Some 1) \<and>
   list_files (w\<lparr>environ := (environ w)(''SUPA_AUTH_TOKEN'' \<mapsto> [])\<rparr>) st =
     list_files (w\<lparr>environ := (environ w)(''SUPA_AUTH_TOKEN'' := None)\<rparr>) st \<and>
   submit_file (w\<lparr>environ := (environ w)(''SUPA_AUTH_TOKEN'' \<mapsto> [])\<rparr>) st =
     submit_file (w\<lparr>environ := (environ w)(''SUPA_AUTH_TOKEN'' := None)\<rparr>) st \<and>
   download_file (w\<lparr>environ := (environ w)(''SUPA_AUTH_TOKEN'' \<mapsto> [])\<rparr>) ev st =
     download_file (w\<lparr>environ := (environ w)(''SUPA_AUTH_TOKEN'' := None)\<rparr>) ev st \<and>
   (fst (main_configuration w st) = None \<longrightarrow>
      SUPA_UNPACK_API_URL (snd (main_configuration w st)) = environ w ''SUPA_UNPACK_API_URL'' \<and>
      SUPA_UNPACK_API_URL (snd (main_configuration w st)) \<noteq> Some [] \<and>
      SUPA_UNPACK_API_URL (snd (main_configuration w st)) \<noteq> None \<and>
      SUPA_MAIN_API_URL (snd (main_configuration w st)) = environ w ''SUPA_MAIN_API_URL'' \<and>
      SUPA_MAIN_API_URL (snd (main_configuration w st)) \<noteq> Some [] \<and>
      SUPA_MAIN_API_URL (snd (main_configuration w st)) \<noteq> None) \<and>
   (\<forall>req \<in> set (drop (length (posts (trace st))) (posts (trace (list_files w st)))).
      \<exists>tok. tok \<noteq> [] \<and> environ w ''SUPA_AUTH_TOKEN'' = Some tok \<and> headers req = auth_headers tok) \<and>
   (\<forall>req \<in> set (drop (length (posts (trace st))) (posts (trace (submit_file w st)))).
      \<exists>tok. tok \<noteq> [] \<and> environ w ''SUPA_AUTH_TOKEN'' = Some tok \<and> headers req = auth_headers tok) \<and>
   (\<forall>req \<in> set (drop (length (posts (trace st))) (posts (trace (download_file w ev st)))).
      \<exists>tok. tok \<noteq> [] \<and> environ w ''SUPA_AUTH_TOKEN'' = Some tok \<and> headers req = auth_headers tok)"
proof -
  let ?e = "w\<lparr>environ := (environ w)(v \<mapsto> [])\<rparr>"
  let ?a = "w\<lparr>environ := (environ w)(v := None)\<rparr>"
  let ?te = "w\<lparr>environ := (environ w)(''SUPA_AUTH_TOKEN'' \<mapsto> [])\<rparr>"
  let ?ta = "w\<lparr>environ := (environ w)(''SUPA_AUTH_TOKEN'' := None)\<rparr>"
  have g: "get_env_variable ?e v m st = get_env_variable ?a v m st"
    "fst (get_env_variable ?e v m st) = None"
    "initial_get_env_variable ?e v m st = initial_get_env_variable ?a v m st"
    "fst (initial_get_env_variable ?e v m st) = None"
    by (simp_all add: get_env_variable_def initial_get_env_variable_def str_falsy_def)
  have mc: "main_configuration ?e st = main_configuration ?a st"
    by (rule main_configuration_cong) (simp add: str_falsy_def)
  have ex: "v \<in> {''SUPA_UNPACK_API_URL'', ''SUPA_MAIN_API_URL'', ''SUPA_AUTH_TOKEN''} \<longrightarrow>
      fst (main_configuration ?e st) = Some 1"
    by (auto simp: main_configuration_exit str_falsy_def)
  have f: "str_falsy (environ ?te ''SUPA_AUTH_TOKEN'')" "str_falsy (environ ?ta ''SUPA_AUTH_TOKEN'')"
    by (simp_all add: str_falsy_def)
  have ops: "list_files ?te st = list_files ?ta st" "submit_file ?te st = submit_file ?ta st"
    "download_file ?te ev st = download_file ?ta ev st"
    using f
    by (simp_all add: list_files_token_falsy [OF f] submit_file_token_falsy [OF f]
          download_file_token_falsy [OF f])
  have urls: "fst (main_configuration w st) = None \<longrightarrow>
      SUPA_UNPACK_API_URL (snd (main_configuration w st)) = environ w ''SUPA_UNPACK_API_URL'' \<and>
      SUPA_UNPACK_API_URL (snd (main_configuration w st)) \<noteq> Some [] \<and>
      SUPA_UNPACK_API_URL (snd (main_configuration w st)) \<noteq> None \<and>
      SUPA_MAIN_API_URL (snd (main_configuration w st)) = environ w ''SUPA_MAIN_API_URL'' \<and>
      SUPA_MAIN_API_URL (snd (main_configuration w st)) \<noteq> Some [] \<and>
      SUPA_MAIN_API_URL (snd (main_configuration w st)) \<noteq> None"
    by (auto simp: main_configuration_exit main_configuration_urls str_falsy_def
          split: if_splits)
  show ?thesis
    using g mc ex ops urls list_files_requests_have_token [of st w]
      submit_file_requests_have_token [of st w] download_file_requests_have_token [of st w ev]
    by blast
qed

theorem empty_value_is_absent_witness:
  "fst (main_configuration (example_world (full_env(''SUPA_AUTH_TOKEN'' \<mapsto> [])) (\<lambda>req. Inl ''unreachable''))
     example_state) = Some 1 \<and>
   fst (main_configuration (example_world full_env (\<lambda>req. Inl ''unreachable'')) example_state) = None \<and>
   SUPA_UNPACK_API_URL
     (snd (main_configuration (example_world full_env (\<lambda>req. Inl ''unreachable'')) example_state)) =
     Some ''https://host/unpack'' \<and>
   list_request ''https://host/unpack'' ''secret''
     \<in> set (drop (length (posts (trace example_state)))
               (posts (trace (list_files (answering 200 report_body) example_state)))) \<and>
   environ (answering 200 report_body) ''SUPA_AUTH_TOKEN'' \<noteq> Some []"
proof -
  let ?w = "example_world full_env (\<lambda>req. Inl ''unreachable'')"
  have e: "?w\<lparr>environ := (environ ?w)(''SUPA_AUTH_TOKEN'' \<mapsto> [])\<rparr> =
      example_world (full_env(''SUPA_AUTH_TOKEN'' \<mapsto> [])) (\<lambda>req. Inl ''unreachable'')"
    by (simp add: example_world_def)
  have v: "''SUPA_AUTH_TOKEN'' \<in> {''SUPA_UNPACK_API_URL'', ''SUPA_MAIN_API_URL'', ''SUPA_AUTH_TOKEN''}"
    by simp
  have n: "fst (main_configuration ?w example_state) = None"
    by (simp add: main_configuration_exit example_world_def full_env_def str_falsy_def)
  have p: "posts (trace (list_files (answering 200 report_body) example_state)) =
      [list_request ''https://host/unpack'' ''secret'']"
    by (simp add: list_files_posts example_state_fields answering_fields str_falsy_def)
  then have mem: "list_request ''https://host/unpack'' ''secret''
      \<in> set (drop (length (posts (trace example_state)))
                (posts (trace (list_files (answering 200 report_body) example_state))))"
    by (simp add: example_state_fields)
  note c = empty_value_is_absent [of ?w "''SUPA_AUTH_TOKEN''" _ example_state None]
  note d = empty_value_is_absent [of "answering 200 report_body" "''SUPA_AUTH_TOKEN''" _
      example_state None]
  have c6: "fst (main_configuration
      (example_world (full_env(''SUPA_AUTH_TOKEN'' \<mapsto> [])) (\<lambda>req. Inl ''unreachable''))
      example_state) = Some 1"
    using c [THEN conjunct2, THEN conjunct2, THEN conjunct2, THEN conjunct2, THEN conjunct2,
        THEN conjunct1, THEN mp, OF v]
    unfolding e .
  have c10: "SUPA_UNPACK_API_URL (snd (main_configuration ?w example_state)) = Some ''https://host/unpack''"
    using c [THEN conjunct2, THEN conjunct2, THEN conjunct2, THEN conjunct2, THEN conjunct2,
        THEN conjunct2, THEN conjunct2, THEN conjunct2, THEN conjunct2, THEN conjunct1, THEN mp,
        OF n, THEN conjunct1]
    by (simp add: example_world_def full_env_def)
  have d11: "\<exists>tok. tok \<noteq> [] \<and> environ (answering 200 report_body) ''SUPA_AUTH_TOKEN'' = Some tok \<and>
      headers (list_request ''https://host/unpack'' ''secret'') = auth_headers tok"
    using d [THEN conjunct2, THEN conjunct2, THEN conjunct2, THEN conjunct2, THEN conjunct2,
        THEN conjunct2, THEN conjunct2, THEN conjunct2, THEN conjunct2, THEN conjunct2,
        THEN conjunct1, THEN bspec, OF mem] .
  then have "environ (answering 200 report_body) ''SUPA_AUTH_TOKEN'' \<noteq> Some []"
    by auto
  with c6 n c10 mem show ?thesis
    by simp
qed

end
